theory Spec2Isabelle
  imports Main "HOL-Library.Sublist"
begin

section \<open>Python values\<close>

text \<open>
  A Python \<^verbatim>\<open>str\<close> is a sequence of Unicode code points, lone surrogates
  (U+D800 to U+DFFF) included, so a string is a list of code points and not a list of
  8-bit characters. \<open>u\<close> turns an ASCII literal into such a string.
\<close>

type_synonym ustring = "nat list"

definition u :: "string \<Rightarrow> ustring" where
  "u s = map of_char s"

text \<open>
  The values the program handles: a string, an integer, a dict (kept with the text that
  \<^verbatim>\<open>str()\<close> gives for it), or any other object (likewise).
\<close>

datatype pyval = PStr ustring | PInt int | PDict ustring | PObj ustring

text \<open>\<^verbatim>\<open>str(n)\<close> for a natural number and for an integer.\<close>

fun digits :: "nat \<Rightarrow> ustring" where
  "digits n = (if n < 10 then [48 + n] else digits (n div 10) @ [48 + n mod 10])"

definition str_int :: "int \<Rightarrow> ustring" where
  "str_int i = (if i < 0 then 45 # digits (nat (- i)) else digits (nat i))"

text \<open>\<^verbatim>\<open>str(v)\<close>, which is also what an f-string puts for \<^verbatim>\<open>{v}\<close>.\<close>

fun py_str :: "pyval \<Rightarrow> ustring" where
  "py_str (PStr s) = s"
| "py_str (PInt i) = str_int i"
| "py_str (PDict d) = d"
| "py_str (PObj d) = d"

text \<open>Truth value of an optional environment variable or key: set and not empty.\<close>

definition truthy :: "ustring option \<Rightarrow> bool" where
  "truthy v = (case v of None \<Rightarrow> False | Some s \<Rightarrow> s \<noteq> [])"

section \<open>clean\_surrogates (main.py, main\_simple.py, trip\_agents.py)\<close>

text \<open>
  \<^verbatim>\<open>re.sub(cls, repl, text)\<close> for a pattern that is one character class:
  every character of the class is a match of length one and is replaced by
  \<open>repl\<close>; the other characters are copied.
\<close>

fun re_sub_class :: "(nat \<Rightarrow> bool) \<Rightarrow> ustring \<Rightarrow> ustring \<Rightarrow> ustring" where
  "re_sub_class cls repl [] = []"
| "re_sub_class cls repl (c # cs) =
     (if cls c then repl @ re_sub_class cls repl cs else c # re_sub_class cls repl cs)"

text \<open>The class \<^verbatim>\<open>[\ud800-\udfff]\<close>.\<close>

definition surrogate :: "nat \<Rightarrow> bool" where
  "surrogate c = (0xD800 \<le> c \<and> c \<le> 0xDFFF)"

text \<open>
  \<^verbatim>\<open>
  def clean_surrogates(text):
      if isinstance(text, str):
          return re.sub(r'[\ud800-\udfff]', '', text)
      return text
  \<close>
\<close>

fun clean_surrogates :: "pyval \<Rightarrow> pyval" where
  "clean_surrogates (PStr s) = PStr (re_sub_class surrogate [] s)"
| "clean_surrogates v = v"

section \<open>Regular expressions as \<^verbatim>\<open>re\<close> runs them\<close>

text \<open>
  The four patterns of \<^verbatim>\<open>extract_first_city\<close> are built from single
  characters and character classes, repetitions of a class (greedy \<^verbatim>\<open>*\<close> and
  \<^verbatim>\<open>{3,25}\<close>, lazy \<^verbatim>\<open>+?\<close>), sequence, alternation, one capturing
  group and \<^verbatim>\<open>\b\<close>. The matcher below is the backtracking search of
  \<^verbatim>\<open>re\<close>: alternatives left to right, a greedy repetition longest first, a
  lazy one shortest first, and the first complete match wins.

  \<open>Rep cls lo hi greedy\<close> repeats the class between \<open>lo\<close> and \<open>hi\<close> times
  (\<open>None\<close>: unbounded). \<open>WordB w\<close> is \<^verbatim>\<open>\b\<close> for the word
  characters \<open>w\<close>.
\<close>

datatype re =
    Cls "nat \<Rightarrow> bool"
  | Rep "nat \<Rightarrow> bool" nat "nat option" bool
  | Seq re re
  | Alt re re
  | Grp re
  | WordB "nat \<Rightarrow> bool"

text \<open>
  A position in the subject: the characters before it (nearest first), the characters
  from it on, and what group 1 has captured so far.
\<close>

type_synonym pos = "ustring \<times> ustring \<times> ustring option"

definition below :: "nat \<Rightarrow> nat option \<Rightarrow> bool" where
  "below n hi = (case hi of None \<Rightarrow> True | Some h \<Rightarrow> n < h)"

text \<open>
  A greedy repetition that has taken \<open>n\<close> characters takes one more when it can, and
  goes on with the rest of the pattern (\<open>k\<close>) from where it stands only when taking
  more has failed.
\<close>

fun rep_greedy ::
  "(nat \<Rightarrow> bool) \<Rightarrow> nat \<Rightarrow> nat option \<Rightarrow> (pos \<Rightarrow> 'a option) \<Rightarrow> ustring option \<Rightarrow> nat \<Rightarrow> ustring \<Rightarrow> ustring \<Rightarrow> 'a option"
where
  "rep_greedy cls lo hi k g n pre [] = (if lo \<le> n then k (pre, [], g) else None)"
| "rep_greedy cls lo hi k g n pre (c # cs) =
     (case (if cls c \<and> below n hi then rep_greedy cls lo hi k g (Suc n) (c # pre) cs else None) of
        Some r \<Rightarrow> Some r
      | None \<Rightarrow> (if lo \<le> n then k (pre, c # cs, g) else None))"

text \<open>A lazy repetition goes on with the rest of the pattern first, and takes one more
  character only when that has failed.\<close>

fun rep_lazy ::
  "(nat \<Rightarrow> bool) \<Rightarrow> nat \<Rightarrow> nat option \<Rightarrow> (pos \<Rightarrow> 'a option) \<Rightarrow> ustring option \<Rightarrow> nat \<Rightarrow> ustring \<Rightarrow> ustring \<Rightarrow> 'a option"
where
  "rep_lazy cls lo hi k g n pre [] = (if lo \<le> n then k (pre, [], g) else None)"
| "rep_lazy cls lo hi k g n pre (c # cs) =
     (case (if lo \<le> n then k (pre, c # cs, g) else None) of
        Some r \<Rightarrow> Some r
      | None \<Rightarrow> (if cls c \<and> below n hi then rep_lazy cls lo hi k g (Suc n) (c # pre) cs else None))"

text \<open>\<^verbatim>\<open>\b\<close>: exactly one of the characters on the two sides of the position is a
  word character (the ends of the subject count as non-word).\<close>

definition word_boundary :: "(nat \<Rightarrow> bool) \<Rightarrow> ustring \<Rightarrow> ustring \<Rightarrow> bool" where
  "word_boundary w pre rest =
     ((case pre of [] \<Rightarrow> False | p # _ \<Rightarrow> w p) \<noteq> (case rest of [] \<Rightarrow> False | c # _ \<Rightarrow> w c))"

fun run_re :: "re \<Rightarrow> pos \<Rightarrow> (pos \<Rightarrow> 'a option) \<Rightarrow> 'a option" where
  "run_re (Cls cls) (pre, rest, g) k =
     (case rest of [] \<Rightarrow> None | c # cs \<Rightarrow> if cls c then k (c # pre, cs, g) else None)"
| "run_re (Rep cls lo hi greedy) (pre, rest, g) k =
     (if greedy then rep_greedy cls lo hi k g 0 pre rest else rep_lazy cls lo hi k g 0 pre rest)"
| "run_re (Seq a b) p k = run_re a p (\<lambda>p'. run_re b p' k)"
| "run_re (Alt a b) p k = (case run_re a p k of Some r \<Rightarrow> Some r | None \<Rightarrow> run_re b p k)"
| "run_re (Grp a) (pre, rest, g) k =
     run_re a (pre, rest, g)
       (\<lambda>(pre', rest', g'). k (pre', rest', Some (rev (take (length pre' - length pre) pre'))))"
| "run_re (WordB w) (pre, rest, g) k =
     (if word_boundary w pre rest then k (pre, rest, g) else None)"

text \<open>
  A match that starts at the position: the text of group 1 (the empty string when the
  group took no part, as \<^verbatim>\<open>findall\<close> reports it) and the length of the match.
\<close>

definition match_at :: "re \<Rightarrow> ustring \<Rightarrow> ustring \<Rightarrow> (ustring \<times> nat) option" where
  "match_at r pre rest =
     run_re r (pre, rest, None)
       (\<lambda>(pre', rest', g). Some (case g of None \<Rightarrow> [] | Some t \<Rightarrow> t, length pre' - length pre))"

text \<open>
  \<^verbatim>\<open>re.findall\<close> for a pattern with one group: scan left to right, try a match at
  each position, keep group 1 of each match and resume at the end of the match.
  \<open>skip\<close> counts the characters of the last match still to be passed. The patterns
  here match at least one character; a match of length 0 would resume one character on.
\<close>

fun findall_from :: "re \<Rightarrow> nat \<Rightarrow> ustring \<Rightarrow> ustring \<Rightarrow> ustring list" where
  "findall_from r skip pre [] =
     (if skip = 0 then (case match_at r pre [] of None \<Rightarrow> [] | Some (t, n) \<Rightarrow> [t]) else [])"
| "findall_from r skip pre (c # cs) =
     (if skip = 0 then
        (case match_at r pre (c # cs) of
           None \<Rightarrow> findall_from r 0 (c # pre) cs
         | Some (t, n) \<Rightarrow> t # findall_from r (n - 1) (c # pre) cs)
      else findall_from r (skip - 1) (c # pre) cs)"

definition findall :: "re \<Rightarrow> ustring \<Rightarrow> ustring list" where
  "findall r s = findall_from r 0 [] s"

text \<open>
  For the proofs: the characters that a match of a pattern can consume (\<open>may\<close>),
  those that its group can capture (\<open>gmay\<close>), and the relation between the
  capture before and after a match: unchanged, or a text of such characters.
\<close>

fun may :: "re \<Rightarrow> nat \<Rightarrow> bool" where
  "may (Cls cls) x = cls x"
| "may (Rep cls lo hi gr) x = cls x"
| "may (Seq a b) x = (may a x \<or> may b x)"
| "may (Alt a b) x = (may a x \<or> may b x)"
| "may (Grp a) x = may a x"
| "may (WordB w) x = False"

fun gmay :: "re \<Rightarrow> nat \<Rightarrow> bool" where
  "gmay (Seq a b) x = (gmay a x \<or> gmay b x)"
| "gmay (Alt a b) x = (gmay a x \<or> gmay b x)"
| "gmay (Grp a) x = may a x"
| "gmay r x = False"

definition grp_ok :: "(nat \<Rightarrow> bool) \<Rightarrow> ustring option \<Rightarrow> ustring option \<Rightarrow> bool" where
  "grp_ok P g g' = (g' = g \<or> (\<exists>t. g' = Some t \<and> list_all P t))"

section \<open>String methods\<close>

text \<open>
  \<^verbatim>\<open>\s\<close> in a \<^verbatim>\<open>str\<close> pattern and the characters that
  \<^verbatim>\<open>str.strip()\<close> removes are the same set, the Unicode whitespace of CPython.
\<close>

definition space :: "nat \<Rightarrow> bool" where
  "space c = ((9 \<le> c \<and> c \<le> 13) \<or> (28 \<le> c \<and> c \<le> 32) \<or> c = 0x85 \<or> c = 0xA0
     \<or> c = 0x1680 \<or> (0x2000 \<le> c \<and> c \<le> 0x200A) \<or> c = 0x2028 \<or> c = 0x2029
     \<or> c = 0x202F \<or> c = 0x205F \<or> c = 0x3000)"

definition strip :: "ustring \<Rightarrow> ustring" where
  "strip s = rev (dropWhile space (rev (dropWhile space s)))"

text \<open>
  \<^verbatim>\<open>str.lower()\<close> on the ASCII letters. It is applied to the stripped captures
  of the patterns, which hold ASCII letters and whitespace only (lemma
  \<open>findall_patterns_chars\<close> below), and whitespace has no lower case; on other cased
  characters Python's method does more than this function.
\<close>

definition lower_char :: "nat \<Rightarrow> nat" where
  "lower_char c = (if 65 \<le> c \<and> c \<le> 90 then c + 32 else c)"

definition lower :: "ustring \<Rightarrow> ustring" where
  "lower s = map lower_char s"

fun startswith :: "ustring \<Rightarrow> ustring \<Rightarrow> bool" where
  "startswith s [] = True"
| "startswith [] (p # ps) = False"
| "startswith (c # cs) (p # ps) = (c = p \<and> startswith cs ps)"

definition endswith :: "ustring \<Rightarrow> ustring \<Rightarrow> bool" where
  "endswith s t = startswith (rev s) (rev t)"

text \<open>\<^verbatim>\<open>sub in s\<close> for strings.\<close>

fun contains :: "ustring \<Rightarrow> ustring \<Rightarrow> bool" where
  "contains [] sub = (sub = [])"
| "contains (c # cs) sub = (startswith (c # cs) sub \<or> contains cs sub)"

section \<open>Exceptions\<close>

text \<open>
  The exceptions of the program are values: the class and the text that
  \<^verbatim>\<open>str(e)\<close> gives. All of them are subclasses of \<^verbatim>\<open>Exception\<close>.
  \<open>LibraryError\<close> stands for whatever an external library (crewai, litellm) raises.
\<close>

datatype exn_class =
  RuntimeError | TypeError | AttributeError | KeyError | UnicodeEncodeError | LibraryError

datatype exn = Exn exn_class ustring

fun str_exn :: "exn \<Rightarrow> ustring" where
  "str_exn (Exn c msg) = msg"

section \<open>print\<close>

text \<open>
  \<^verbatim>\<open>print\<close> writes to the standard output. The program prints emoji in its own
  messages, so the standard output is taken to encode as UTF-8, with the strict error
  handler that Python gives it: a text can be written exactly when it holds no lone
  surrogate, and \<^verbatim>\<open>print\<close> raises \<^verbatim>\<open>UnicodeEncodeError\<close> otherwise.
  The text of that exception (abridged here) names the character by its escape and is
  itself printable.

  The prints modelled below are those whose text holds data: an exception text, an
  environment variable, the raw output of a crew, the selected city. The other prints of
  the program write constant texts without surrogates, which \<open>print\<close> cannot refuse;
  so are the two prints of \<^verbatim>\<open>extract_first_city\<close>, which write a constant and a
  stripped capture of the cleaned text (lemma \<open>selected_city_printable\<close> below).
  The prints at the top of trip\_agents.py run once, when the module is loaded, before
  any of the functions below is called; they are outside these functions.
\<close>

definition printable :: "ustring \<Rightarrow> bool" where
  "printable text = (\<not> list_ex surrogate text)"

definition print :: "ustring \<Rightarrow> exn + unit" where
  "print text =
     (if printable text then Inr () else Inl (Exn UnicodeEncodeError (u ''surrogates not allowed'')))"

section \<open>extract\_first\_city (trip\_agents.py)\<close>

definition lit :: "char \<Rightarrow> re" where
  "lit c = Cls (\<lambda>x. x = of_char c)"

text \<open>\<^verbatim>\<open>[A-Z]\<close>, \<^verbatim>\<open>[a-zA-Z\s]\<close>, \<^verbatim>\<open>[-,:]\<close> and
  \<^verbatim>\<open>[-*\<bullet>]\<close> (the bullet is U+2022).\<close>

definition upper :: "nat \<Rightarrow> bool" where
  "upper c = (65 \<le> c \<and> c \<le> 90)"

definition letter_or_space :: "nat \<Rightarrow> bool" where
  "letter_or_space c = ((97 \<le> c \<and> c \<le> 122) \<or> (65 \<le> c \<and> c \<le> 90) \<or> space c)"

definition separator :: "nat \<Rightarrow> bool" where
  "separator c = (c = 45 \<or> c = 44 \<or> c = 58)"

definition bullet :: "nat \<Rightarrow> bool" where
  "bullet c = (c = 45 \<or> c = 42 \<or> c = 0x2022)"

text \<open>
  \<^verbatim>\<open>\b\<close> looks at word characters: alphanumerics and the underscore. For ASCII
  that is written out; for the other code points it is the Unicode database's
  \<^verbatim>\<open>isalnum\<close>, which is not part of the program: the parameter \<open>ua\<close>.
\<close>

definition word_char :: "(nat \<Rightarrow> bool) \<Rightarrow> nat \<Rightarrow> bool" where
  "word_char ua c =
     (if c < 128 then (48 \<le> c \<and> c \<le> 57) \<or> (65 \<le> c \<and> c \<le> 90) \<or> (97 \<le> c \<and> c \<le> 122) \<or> c = 95
      else ua c)"

text \<open>\<^verbatim>\<open>([A-Z][a-zA-Z\s]+?)\<close>\<close>

definition name_group :: re where
  "name_group = Grp (Seq (Cls upper) (Rep letter_or_space 1 None False))"

text \<open>\<^verbatim>\<open>(?:,\s*[A-Z][a-zA-Z\s]+?|\s*[-,:]|\n)\<close>\<close>

definition name_end :: re where
  "name_end =
     Alt (Seq (lit CHR '','') (Seq (Rep space 0 None True)
            (Seq (Cls upper) (Rep letter_or_space 1 None False))))
      (Alt (Seq (Rep space 0 None True) (Cls separator))
           (lit CHR 0x0A))"

text \<open>
  \<^verbatim>\<open>
  patterns = [
      r"1\.\s*([A-Z][a-zA-Z\s]+?)(?:,\s*[A-Z][a-zA-Z\s]+?|\s*[-,:]|\n)",
      r"[-*\<bullet>]\s*([A-Z][a-zA-Z\s]+?)(?:,\s*[A-Z][a-zA-Z\s]+?|\s*[-,:]|\n)",
      r"(\b[A-Z][a-zA-Z\s]+?)(?:\s*[-,:])",
      r"([A-Z][a-zA-Z\s]{3,25})"
  ]
  \<close>
\<close>

definition pattern1 :: re where
  "pattern1 =
     Seq (lit CHR ''1'') (Seq (lit CHR ''.'') (Seq (Rep space 0 None True) (Seq name_group name_end)))"

definition pattern2 :: re where
  "pattern2 = Seq (Cls bullet) (Seq (Rep space 0 None True) (Seq name_group name_end))"

definition pattern3 :: "(nat \<Rightarrow> bool) \<Rightarrow> re" where
  "pattern3 ua =
     Seq (Grp (Seq (WordB (word_char ua)) (Seq (Cls upper) (Rep letter_or_space 1 None False))))
         (Seq (Rep space 0 None True) (Cls separator))"

definition pattern4 :: re where
  "pattern4 = Grp (Seq (Cls upper) (Rep letter_or_space 3 (Some 25) True))"

definition patterns :: "(nat \<Rightarrow> bool) \<Rightarrow> re list" where
  "patterns ua = [pattern1, pattern2, pattern3 ua, pattern4]"

definition excluded_words :: "ustring list" where
  "excluded_words = map u [''the'', ''and'', ''for'', ''with'', ''city'', ''travel'', ''trip'',
     ''based'', ''type'', ''perfect'', ''best'', ''experience'', ''plan'', ''planning'',
     ''expert'', ''reasons'', ''selection'']"

text \<open>
  The filter on a stripped candidate:
  \<^verbatim>\<open>
  len(city) > 2 and city.lower() not in excluded_words
  and not any(city.lower().startswith(ew) for ew in excluded_words)
  and not city.lower().endswith('city')
  \<close>
\<close>

definition accepted :: "ustring \<Rightarrow> bool" where
  "accepted city =
     (length city > 2 \<and> lower city \<notin> set excluded_words
      \<and> \<not> list_ex (\<lambda>ew. startswith (lower city) ew) excluded_words
      \<and> \<not> endswith (lower city) (u ''city''))"

text \<open>The inner loop: the first match whose stripped text passes the filter.\<close>

fun first_accepted :: "ustring list \<Rightarrow> ustring option" where
  "first_accepted [] = None"
| "first_accepted (m # ms) =
     (let city = strip m in if accepted city then Some city else first_accepted ms)"

definition default_city :: ustring where
  "default_city = u ''Paris''"

text \<open>
  The outer loop over the patterns. Nothing leaves the loop but the
  \<^verbatim>\<open>return city\<close> of an accepted candidate: after the matches of a pattern have
  all been refused, the loop goes on to the next pattern. The default is returned after
  the last pattern.
\<close>

fun try_patterns :: "re list \<Rightarrow> ustring \<Rightarrow> ustring" where
  "try_patterns [] s = default_city"
| "try_patterns (p # ps) s =
     (let matches = findall p s in
      if matches \<noteq> [] then
        (case first_accepted matches of Some city \<Rightarrow> city | None \<Rightarrow> try_patterns ps s)
      else try_patterns ps s)"

text \<open>
  A dict is turned into its \<^verbatim>\<open>str()\<close> first. A value that is neither a string
  nor a dict passes \<^verbatim>\<open>clean_surrogates\<close> unchanged and makes
  \<^verbatim>\<open>re.findall\<close> raise \<^verbatim>\<open>TypeError\<close>.
\<close>

definition extract_first_city :: "(nat \<Rightarrow> bool) \<Rightarrow> pyval \<Rightarrow> exn + ustring" where
  "extract_first_city ua city_output =
     (let city_output1 = (case city_output of PDict d \<Rightarrow> PStr d | v \<Rightarrow> v);
          city_output2 = clean_surrogates city_output1
      in case city_output2 of
           PStr s \<Rightarrow> Inr (try_patterns (patterns ua) s)
         | _ \<Rightarrow> Inl (Exn TypeError (u ''expected string or bytes-like object'')))"

text \<open>
  An instance of the parameter \<open>ua\<close> for the worked examples: no code point from 128
  on counts as alphanumeric. The texts of the examples are ASCII, where the parameter is
  not consulted.
\<close>

definition ascii_alnum :: "nat \<Rightarrow> bool" where
  "ascii_alnum c = False"

section \<open>TripAgents.\_initialize\_llm (trip\_agents.py)\<close>

text \<open>
  The arguments of one \<^verbatim>\<open>LLM(...)\<close> call. The temperature is 0.7 in every
  call; it is kept in tenths.
\<close>

record llm_spec =
  model :: ustring
  api_key :: "ustring option"
  temperature_tenths :: nat
  max_tokens :: nat
  custom_llm_provider :: "ustring option"

text \<open>
  The environment variables the function reads. \<^verbatim>\<open>HUGGINGFACE_API_KEY\<close> is read
  once, when the module is loaded, into the global \<^verbatim>\<open>hf_api_key\<close>.
\<close>

record environment =
  GROQ_API_KEY :: "ustring option"
  HUGGINGFACE_API_KEY :: "ustring option"
  OPENAI_API_KEY :: "ustring option"
  LITELLM_MODEL :: "ustring option"
  LITELLM_PROVIDER :: "ustring option"

definition getenv_default :: "ustring option \<Rightarrow> ustring \<Rightarrow> ustring" where
  "getenv_default v d = (case v of None \<Rightarrow> d | Some s \<Rightarrow> s)"

definition groq_spec :: "ustring \<Rightarrow> llm_spec" where
  "groq_spec m = \<lparr>model = m, api_key = None, temperature_tenths = 7, max_tokens = 1000,
     custom_llm_provider = Some (u ''groq'')\<rparr>"

definition groq_models :: "ustring list" where
  "groq_models = [u ''mixtral-8x7b-32768'', u ''llama2-70b-4096'', u ''gemma-7b-it'']"

definition hf_spec :: "ustring \<Rightarrow> ustring \<Rightarrow> nat \<Rightarrow> llm_spec" where
  "hf_spec key m tokens = \<lparr>model = m, api_key = Some key, temperature_tenths = 7,
     max_tokens = tokens, custom_llm_provider = None\<rparr>"

definition alternative_hf_models :: "ustring list" where
  "alternative_hf_models =
     [u ''google/flan-t5-base'', u ''microsoft/DialoGPT-small'', u ''HuggingFaceH4/zephyr-7b-beta'']"

definition openai_spec :: "ustring \<Rightarrow> llm_spec" where
  "openai_spec key = \<lparr>model = u ''gpt-3.5-turbo'', api_key = Some key, temperature_tenths = 7,
     max_tokens = 1000, custom_llm_provider = None\<rparr>"

text \<open>
  The constructor \<^verbatim>\<open>LLM\<close> of crewai is not part of the program: it is the
  parameter \<open>LLM\<close>, which gives a client or raises. Every function below returns, next
  to its result, the specs it has passed to \<open>LLM\<close>, in the order of the calls.

  An attempt ends in one of three ways: a client was built and is returned; every
  constructor call failed and the function goes on; or an exception left the attempt,
  which can only come from a \<^verbatim>\<open>print\<close> outside a \<^verbatim>\<open>try\<close> block or
  inside an \<^verbatim>\<open>except\<close> block.
\<close>

datatype 'c attempt = Built 'c | Failed | Raised exn

text \<open>
  The two loops over alternative models:
  \<^verbatim>\<open>
  for m in models:
      try:
          llm = LLM(model=m, ...)
          return llm
      except Exception as e:
          print(f"\<dots> Failed to initialize {m}: {e}")
          continue
  \<close>
  (the message starts with the cross mark U+274C).
\<close>

fun try_models :: "(llm_spec \<Rightarrow> exn + 'c) \<Rightarrow> llm_spec list \<Rightarrow> llm_spec list \<Rightarrow> 'c attempt \<times> llm_spec list" where
  "try_models LLM [] tried = (Failed, tried)"
| "try_models LLM (sp # sps) tried =
     (case LLM sp of
        Inr llm \<Rightarrow> (Built llm, tried @ [sp])
      | Inl e \<Rightarrow>
          (case print ([0x274C] @ u '' Failed to initialize '' @ model sp @ u '': '' @ str_exn e) of
             Inl print_error \<Rightarrow> (Raised print_error, tried @ [sp])
           | Inr ok \<Rightarrow> try_models LLM sps (tried @ [sp])))"

text \<open>Attempt 1: Groq, the primary model and, in its \<^verbatim>\<open>except\<close> block, the
  print of the failure (\<^verbatim>\<open>print(f"\<dots> Groq failed: {e3}")\<close>) and the
  alternative models.\<close>

definition attempt_groq :: "(llm_spec \<Rightarrow> exn + 'c) \<Rightarrow> environment \<Rightarrow> 'c attempt \<times> llm_spec list" where
  "attempt_groq LLM env =
     (if truthy (GROQ_API_KEY env) then
        (case LLM (groq_spec (u ''llama3-8b-8192'')) of
           Inr llm \<Rightarrow> (Built llm, [groq_spec (u ''llama3-8b-8192'')])
         | Inl e3 \<Rightarrow>
             (case print ([0x274C] @ u '' Groq failed: '' @ str_exn e3) of
                Inl print_error \<Rightarrow> (Raised print_error, [groq_spec (u ''llama3-8b-8192'')])
              | Inr ok \<Rightarrow>
                  try_models LLM (map groq_spec groq_models) [groq_spec (u ''llama3-8b-8192'')]))
      else (Failed, []))"

text \<open>
  Attempt 2: Hugging Face. Before its \<^verbatim>\<open>try\<close> statement the provider and the
  model of the environment are printed (the message starts with U+1F504); then the
  configured model, the print of its failure in the \<^verbatim>\<open>except\<close> block, and the
  alternative models.
\<close>

definition attempt_hf :: "(llm_spec \<Rightarrow> exn + 'c) \<Rightarrow> environment \<Rightarrow> llm_spec list \<Rightarrow> 'c attempt \<times> llm_spec list" where
  "attempt_hf LLM env tried =
     (case HUGGINGFACE_API_KEY env of
        None \<Rightarrow> (Failed, tried)
      | Some hf_api_key \<Rightarrow>
          if hf_api_key = [] then (Failed, tried)
          else
            (let model_name = getenv_default (LITELLM_MODEL env) (u ''microsoft/DialoGPT-medium'');
                 provider = getenv_default (LITELLM_PROVIDER env) (u ''huggingface'')
             in case print ([0x1F504] @ u '' Trying Hugging Face as fallback (via '' @ provider @
                            u '' provider): '' @ model_name) of
                  Inl print_error \<Rightarrow> (Raised print_error, tried)
                | Inr ok \<Rightarrow>
                    (case LLM (hf_spec hf_api_key model_name 1000) of
                       Inr llm \<Rightarrow> (Built llm, tried @ [hf_spec hf_api_key model_name 1000])
                     | Inl e \<Rightarrow>
                         (case print ([0x274C] @ u '' Failed to initialize Hugging Face model '' @
                                      model_name @ u '': '' @ str_exn e) of
                            Inl print_error \<Rightarrow>
                              (Raised print_error, tried @ [hf_spec hf_api_key model_name 1000])
                          | Inr ok \<Rightarrow>
                              try_models LLM (map (\<lambda>m. hf_spec hf_api_key m 800) alternative_hf_models)
                                (tried @ [hf_spec hf_api_key model_name 1000])))))"

text \<open>Attempt 3: OpenAI, and the print of its failure in the \<^verbatim>\<open>except\<close>
  block.\<close>

definition attempt_openai :: "(llm_spec \<Rightarrow> exn + 'c) \<Rightarrow> environment \<Rightarrow> llm_spec list \<Rightarrow> 'c attempt \<times> llm_spec list" where
  "attempt_openai LLM env tried =
     (case OPENAI_API_KEY env of
        None \<Rightarrow> (Failed, tried)
      | Some openai_key \<Rightarrow>
          if openai_key = [] then (Failed, tried)
          else
            (case LLM (openai_spec openai_key) of
               Inr llm \<Rightarrow> (Built llm, tried @ [openai_spec openai_key])
             | Inl e4 \<Rightarrow>
                 (case print ([0x274C] @ u '' OpenAI fallback failed: '' @ str_exn e4) of
                    Inl print_error \<Rightarrow> (Raised print_error, tried @ [openai_spec openai_key])
                  | Inr ok \<Rightarrow> (Failed, tried @ [openai_spec openai_key]))))"

definition no_llm_message :: ustring where
  "no_llm_message = u ''No valid LLM could be initialized. Please check your API keys and model configurations in .env.local.''"

text \<open>
  \<^verbatim>\<open>_initialize_llm\<close>: the three attempts in their order, each returning the
  client as soon as one constructor call succeeds; an exception that leaves an attempt
  leaves the function; after the attempts
  \<^verbatim>\<open>raise RuntimeError("No valid LLM could be initialized. ...")\<close>. The reasons of
  the failed calls are printed and not kept.
\<close>

definition initialize_llm :: "(llm_spec \<Rightarrow> exn + 'c) \<Rightarrow> environment \<Rightarrow> (exn + 'c) \<times> llm_spec list" where
  "initialize_llm LLM env =
     (case attempt_groq LLM env of
        (Built llm, tried1) \<Rightarrow> (Inr llm, tried1)
      | (Raised e, tried1) \<Rightarrow> (Inl e, tried1)
      | (Failed, tried1) \<Rightarrow>
          (case attempt_hf LLM env tried1 of
             (Built llm, tried2) \<Rightarrow> (Inr llm, tried2)
           | (Raised e, tried2) \<Rightarrow> (Inl e, tried2)
           | (Failed, tried2) \<Rightarrow>
               (case attempt_openai LLM env tried2 of
                  (Built llm, tried3) \<Rightarrow> (Inr llm, tried3)
                | (Raised e, tried3) \<Rightarrow> (Inl e, tried3)
                | (Failed, tried3) \<Rightarrow> (Inl (Exn RuntimeError no_llm_message), tried3))))"

text \<open>
  The specs in the order in which \<^verbatim>\<open>_initialize_llm\<close> comes to them, for the
  credentials that are set: those of Groq, then those of Hugging Face, then that of
  OpenAI. Their concatenation is the list that the specification calls the ordered
  sequence of ProviderSpec.
\<close>

definition groq_part :: "environment \<Rightarrow> llm_spec list" where
  "groq_part env =
     (if truthy (GROQ_API_KEY env)
      then groq_spec (u ''llama3-8b-8192'') # map groq_spec groq_models else [])"

definition hf_part :: "environment \<Rightarrow> llm_spec list" where
  "hf_part env =
     (case HUGGINGFACE_API_KEY env of
        None \<Rightarrow> []
      | Some k \<Rightarrow>
          if k = [] then []
          else hf_spec k (getenv_default (LITELLM_MODEL env) (u ''microsoft/DialoGPT-medium'')) 1000
               # map (\<lambda>m. hf_spec k m 800) alternative_hf_models)"

definition openai_part :: "environment \<Rightarrow> llm_spec list" where
  "openai_part env =
     (case OPENAI_API_KEY env of
        None \<Rightarrow> []
      | Some k \<Rightarrow> if k = [] then [] else [openai_spec k])"

definition provider_specs :: "environment \<Rightarrow> llm_spec list" where
  "provider_specs env = groq_part env @ hf_part env @ openai_part env"

text \<open>
  The resolver as the specification words it: iterate the specs in order, return the
  client of the first spec whose construction succeeds, and fail when the sequence is
  exhausted. It also returns the specs it has attempted.
\<close>

fun resolve :: "(llm_spec \<Rightarrow> exn + 'c) \<Rightarrow> llm_spec list \<Rightarrow> 'c option \<times> llm_spec list" where
  "resolve LLM [] = (None, [])"
| "resolve LLM (sp # sps) =
     (case LLM sp of
        Inr llm \<Rightarrow> (Some llm, [sp])
      | Inl e \<Rightarrow> (case resolve LLM sps of (r, tried) \<Rightarrow> (r, sp # tried)))"

text \<open>
  For the statements: the provider and the model that attempt 2 prints before its
  \<^verbatim>\<open>try\<close> statement can be printed (nothing is printed there without the
  Hugging Face key).
\<close>

definition announcement_printable :: "environment \<Rightarrow> bool" where
  "announcement_printable env =
     (truthy (HUGGINGFACE_API_KEY env) \<longrightarrow>
        printable (getenv_default (LITELLM_MODEL env) (u ''microsoft/DialoGPT-medium''))
        \<and> printable (getenv_default (LITELLM_PROVIDER env) (u ''huggingface'')))"

text \<open>
  Environments and constructors for the worked examples: only the Groq key set, or no
  key at all; a constructor that refuses the primary Groq model and builds every other
  one (the client is named after its model), and one that refuses every spec with a given
  reason.
\<close>

definition groq_only_env :: environment where
  "groq_only_env = \<lparr>GROQ_API_KEY = Some (u ''gsk''), HUGGINGFACE_API_KEY = None,
     OPENAI_API_KEY = None, LITELLM_MODEL = None, LITELLM_PROVIDER = None\<rparr>"

definition no_credentials_env :: environment where
  "no_credentials_env = \<lparr>GROQ_API_KEY = None, HUGGINGFACE_API_KEY = None,
     OPENAI_API_KEY = None, LITELLM_MODEL = None, LITELLM_PROVIDER = None\<rparr>"

definition primary_refused :: "llm_spec \<Rightarrow> exn + ustring" where
  "primary_refused sp =
     (if model sp = u ''llama3-8b-8192'' then Inl (Exn LibraryError (u ''model decommissioned''))
      else Inr (model sp))"

definition all_refused :: "ustring \<Rightarrow> llm_spec \<Rightarrow> exn + ustring" where
  "all_refused reason sp = Inl (Exn LibraryError reason)"


section \<open>The prompts of main\_simple.py\<close>

text \<open>
  The \<^verbatim>\<open>inputs\<close> dict that \<^verbatim>\<open>main()\<close> builds from the form has the keys
  \<^verbatim>\<open>travel_type\<close>, \<^verbatim>\<open>interests\<close>, \<^verbatim>\<open>season\<close>,
  \<^verbatim>\<open>duration\<close> and \<^verbatim>\<open>budget\<close>. A field is \<open>None\<close> when the key is
  absent from the dict.
\<close>

record inputs =
  travel_type :: "pyval option"
  interests :: "pyval option"
  season :: "pyval option"
  duration :: "pyval option"
  budget :: "pyval option"

text \<open>\<^verbatim>\<open>inputs[key]\<close> raises \<^verbatim>\<open>KeyError\<close> on an absent key;
  \<^verbatim>\<open>inputs.get(key, default)\<close> gives the default.\<close>

definition subscript :: "ustring \<Rightarrow> pyval option \<Rightarrow> exn + pyval" where
  "subscript key v = (case v of None \<Rightarrow> Inl (Exn KeyError ([39] @ key @ [39])) | Some x \<Rightarrow> Inr x)"

definition get_default :: "pyval option \<Rightarrow> ustring \<Rightarrow> pyval" where
  "get_default v d = (case v of None \<Rightarrow> PStr d | Some x \<Rightarrow> x)"

text \<open>
  The f-string that each \<^verbatim>\<open>generate_...\<close> function builds, line by line as in
  the source (\<open>[10]\<close> is the line feed). The subscripts are evaluated left to right.
\<close>

text \<open>The prompt of \<^verbatim>\<open>generate_city_recommendations\<close>.\<close>

definition city_recommendations_prompt :: "inputs \<Rightarrow> exn + ustring" where
  "city_recommendations_prompt inputs =
     (case subscript (u ''travel_type'') (travel_type inputs) of Inl e \<Rightarrow> Inl e | Inr travel_type_v \<Rightarrow>
      case subscript (u ''interests'') (interests inputs) of Inl e \<Rightarrow> Inl e | Inr interests_v \<Rightarrow>
      case subscript (u ''season'') (season inputs) of Inl e \<Rightarrow> Inl e | Inr season_v \<Rightarrow>
      case subscript (u ''budget'') (budget inputs) of Inl e \<Rightarrow> Inl e | Inr budget_v \<Rightarrow>
      case subscript (u ''duration'') (duration inputs) of Inl e \<Rightarrow> Inl e | Inr duration_v \<Rightarrow>
      Inr
       ([10] @
        u ''    As a travel expert, recommend 3 best cities to visit based on these preferences:'' @ [10] @
        u ''    '' @ [10] @
        u ''    Travel Type: '' @ py_str travel_type_v @ [10] @
        u ''    Interests: '' @ py_str interests_v @ [10] @
        u ''    Season: '' @ py_str season_v @ [10] @
        u ''    Budget Range: '' @ py_str budget_v @ [10] @
        u ''    Duration: '' @ py_str duration_v @ u '' days'' @ [10] @
        u ''    '' @ [10] @
        u ''    For each city, provide:'' @ [10] @
        u ''    1. City name and country'' @ [10] @
        u ''    2. Why it matches their travel type and interests'' @ [10] @
        u ''    3. Why it's perfect for the specified season'' @ [10] @
        u ''    4. Brief highlight of what makes it special'' @ [10] @
        u ''    '' @ [10] @
        u ''    Format as a numbered list with city names clearly stated.'' @ [10] @
        u ''    ''))"

text \<open>The prompt of \<^verbatim>\<open>generate_destination_research\<close>.\<close>

definition destination_research_prompt :: "ustring \<Rightarrow> inputs \<Rightarrow> exn + ustring" where
  "destination_research_prompt city inputs =
     (case subscript (u ''travel_type'') (travel_type inputs) of Inl e \<Rightarrow> Inl e | Inr travel_type_v \<Rightarrow>
      case subscript (u ''interests'') (interests inputs) of Inl e \<Rightarrow> Inl e | Inr interests_v \<Rightarrow>
      case subscript (u ''duration'') (duration inputs) of Inl e \<Rightarrow> Inl e | Inr duration_v \<Rightarrow>
      Inr
       ([10] @
        u ''    Provide comprehensive research about '' @ city @ u '' for a traveler with these preferences:'' @ [10] @
        u ''    Travel Type: '' @ py_str travel_type_v @ [10] @
        u ''    Interests: '' @ py_str interests_v @ [10] @
        u ''    Duration: '' @ py_str duration_v @ u '' days'' @ [10] @
        u ''    '' @ [10] @
        u ''    Include:'' @ [10] @
        u ''    1. TOP 5 ATTRACTIONS: Must-visit places with brief descriptions and estimated time'' @ [10] @
        u ''    2. LOCAL CUISINE: Signature dishes and where to find them'' @ [10] @
        u ''    3. CULTURAL INSIGHTS: Important customs, etiquette, and cultural norms'' @ [10] @
        u ''    4. ACCOMMODATION: Best areas to stay for different budgets'' @ [10] @
        u ''    5. TRANSPORTATION: How to get around the city efficiently'' @ [10] @
        u ''    6. BEST TIME TO VISIT: Optimal months, weather, and crowds'' @ [10] @
        u ''    7. PRACTICAL TIPS: Currency, safety, language basics, common scams'' @ [10] @
        u ''    '' @ [10] @
        u ''    Make this practical and actionable for travelers.'' @ [10] @
        u ''    ''))"

text \<open>The prompt of \<^verbatim>\<open>generate_itinerary\<close>.\<close>

definition itinerary_prompt :: "ustring \<Rightarrow> inputs \<Rightarrow> exn + ustring" where
  "itinerary_prompt city inputs =
     (case subscript (u ''duration'') (duration inputs) of Inl e \<Rightarrow> Inl e | Inr duration_v \<Rightarrow>
      case subscript (u ''travel_type'') (travel_type inputs) of Inl e \<Rightarrow> Inl e | Inr travel_type_v \<Rightarrow>
      case subscript (u ''interests'') (interests inputs) of Inl e \<Rightarrow> Inl e | Inr interests_v \<Rightarrow>
      Inr
       ([10] @
        u ''    Create a detailed '' @ py_str duration_v @ u ''-day itinerary for '' @ city @ u '' based on:'' @ [10] @
        u ''    - Travel Type: '' @ py_str travel_type_v @ [10] @
        u ''    - Interests: '' @ py_str interests_v @ [10] @
        u ''    - Duration: '' @ py_str duration_v @ u '' days'' @ [10] @
        u ''    '' @ [10] @
        u ''    For each day, include:'' @ [10] @
        u ''    1. DAY NUMBER: Clearly state the day (e.g., 'Day 1: Arrival and City Exploration')'' @ [10] @
        u ''    2. Morning activities (9 AM - 12 PM) with specific attractions/locations'' @ [10] @
        u ''    3. Afternoon activities (12 PM - 5 PM) with specific attractions/locations'' @ [10] @
        u ''    4. Evening activities (5 PM - 9 PM) including dinner recommendations'' @ [10] @
        u ''    5. Recommended restaurants for each meal with cuisine type'' @ [10] @
        u ''    6. Transportation methods between locations'' @ [10] @
        u ''    7. Estimated time for each activity'' @ [10] @
        u ''    8. Booking requirements or tips'' @ [10] @
        u ''    '' @ [10] @
        u ''    Make activities geographically logical and account for travel time.'' @ [10] @
        u ''    ''))"

text \<open>The prompt of \<^verbatim>\<open>generate_budget_plan\<close>.\<close>

definition budget_plan_prompt :: "ustring \<Rightarrow> inputs \<Rightarrow> exn + ustring" where
  "budget_plan_prompt city inputs =
     (case subscript (u ''duration'') (duration inputs) of Inl e \<Rightarrow> Inl e | Inr duration_v \<Rightarrow>
      case subscript (u ''budget'') (budget inputs) of Inl e \<Rightarrow> Inl e | Inr budget_v \<Rightarrow>
      Inr
       ([10] @
        u ''    Create a realistic budget plan for a '' @ py_str duration_v @ u ''-day trip to '' @ city @ u '' '' @ [10] @
        u ''    with a '' @ py_str budget_v @ u '' budget.'' @ [10] @
        u ''    '' @ [10] @
        u ''    Break down costs for:'' @ [10] @
        u ''    1. ACCOMMODATION: Per night costs and total'' @ [10] @
        u ''    2. MEALS: Daily averages for Breakfast, Lunch, Dinner'' @ [10] @
        u ''    3. TRANSPORTATION: Local transport, airport transfers'' @ [10] @
        u ''    4. ATTRACTIONS: Entry fees for major sights'' @ [10] @
        u ''    5. SHOPPING & MISCELLANEOUS: Daily allowance for souvenirs, snacks'' @ [10] @
        u ''    6. EMERGENCY FUND: 10-15% buffer of total cost'' @ [10] @
        u ''    '' @ [10] @
        u ''    Provide:'' @ [10] @
        u ''    - Daily budget estimates for each category'' @ [10] @
        u ''    - Total estimated budget for the entire trip'' @ [10] @
        u ''    - Money-saving tips specific to '' @ city @ [10] @
        u ''    - Splurge recommendations with costs'' @ [10] @
        u ''    '' @ [10] @
        u ''    Use local currency or USD with clear indication.'' @ [10] @
        u ''    ''))"

text \<open>
  \<^verbatim>\<open>get_groq_response\<close>: the completion call is the parameter \<open>client\<close>
  (prompt to content, or an exception); an exception becomes the text
  \<^verbatim>\<open>Error: ...\<close>.
\<close>

definition get_groq_response :: "ustring \<Rightarrow> (ustring \<Rightarrow> exn + ustring) \<Rightarrow> ustring" where
  "get_groq_response prompt client =
     (case client prompt of Inr content \<Rightarrow> content | Inl e \<Rightarrow> u ''Error: '' @ str_exn e)"

definition generate_city_recommendations :: "inputs \<Rightarrow> (ustring \<Rightarrow> exn + ustring) \<Rightarrow> exn + ustring" where
  "generate_city_recommendations inputs client =
     (case city_recommendations_prompt inputs of
        Inl e \<Rightarrow> Inl e | Inr prompt \<Rightarrow> Inr (get_groq_response prompt client))"

definition generate_destination_research :: "ustring \<Rightarrow> inputs \<Rightarrow> (ustring \<Rightarrow> exn + ustring) \<Rightarrow> exn + ustring" where
  "generate_destination_research city inputs client =
     (case destination_research_prompt city inputs of
        Inl e \<Rightarrow> Inl e | Inr prompt \<Rightarrow> Inr (get_groq_response prompt client))"

definition generate_itinerary :: "ustring \<Rightarrow> inputs \<Rightarrow> (ustring \<Rightarrow> exn + ustring) \<Rightarrow> exn + ustring" where
  "generate_itinerary city inputs client =
     (case itinerary_prompt city inputs of
        Inl e \<Rightarrow> Inl e | Inr prompt \<Rightarrow> Inr (get_groq_response prompt client))"

definition generate_budget_plan :: "ustring \<Rightarrow> inputs \<Rightarrow> (ustring \<Rightarrow> exn + ustring) \<Rightarrow> exn + ustring" where
  "generate_budget_plan city inputs client =
     (case budget_plan_prompt city inputs of
        Inl e \<Rightarrow> Inl e | Inr prompt \<Rightarrow> Inr (get_groq_response prompt client))"

text \<open>A form submission for the worked examples.\<close>

definition winter_food_trip :: inputs where
  "winter_food_trip = \<lparr>travel_type = Some (PStr (u ''Cultural'')), interests = Some (PStr (u ''Food, Art'')),
     season = Some (PStr (u ''Winter'')), duration = Some (PInt 7),
     budget = Some (PStr (u ''Luxury (Rs4000+)''))\<rparr>"

section \<open>Agents and tasks (trip\_agents.py)\<close>

text \<open>
  The keyword arguments that \<^verbatim>\<open>base_agent\<close> passes to the constructor
  \<^verbatim>\<open>Agent\<close>, and those that a task method passes to \<^verbatim>\<open>Task\<close>.
\<close>

record 'c agent_config =
  role :: pyval
  goal :: pyval
  backstory :: pyval
  verbose :: bool
  allow_delegation :: bool
  max_iter :: nat
  llm :: "'c option"

record 'a task_config =
  description :: pyval
  agent :: 'a
  expected_output :: pyval

text \<open>
  What a crew gives back. \<^verbatim>\<open>hasattr\<close> is asked of these objects, so an
  attribute is \<open>None\<close> when the object does not have it; \<open>to_str\<close> and
  \<open>co_str\<close> are what \<^verbatim>\<open>str()\<close> gives for the object.
\<close>

record task_output =
  to_description :: ustring
  to_raw :: "pyval option"
  to_str :: ustring

record crew_output =
  co_raw :: "pyval option"
  co_result :: "pyval option"
  co_tasks_output :: "task_output list option"
  co_str :: ustring

text \<open>
  The library crewai is not part of the program. Its constructors and the run of a crew
  are parameters: each gives its object or raises. \<open>kickoff agents tasks\<close> stands for
  \<^verbatim>\<open>Crew(agents=..., tasks=..., verbose=True, full_output=True).kickoff()\<close>, and
  \<open>llm_truthy\<close> for the truth value of a client object. Printing is not modelled.
\<close>

record ('c, 'a, 't) world =
  new_LLM :: "llm_spec \<Rightarrow> exn + 'c"
  llm_truthy :: "'c \<Rightarrow> bool"
  new_Agent :: "'c agent_config \<Rightarrow> exn + 'a"
  new_Task :: "'a task_config \<Rightarrow> exn + 't"
  kickoff :: "'a list \<Rightarrow> 't list \<Rightarrow> exn + crew_output"

text \<open>
  \<^verbatim>\<open>TripAgents.__init__\<close>: the client of \<^verbatim>\<open>_initialize_llm\<close>, or its
  exception; a client that is false raises as well.
\<close>

definition TripAgents_init :: "('c, 'a, 't) world \<Rightarrow> environment \<Rightarrow> exn + 'c" where
  "TripAgents_init w env =
     (case fst (initialize_llm (new_LLM w) env) of
        Inl e \<Rightarrow> Inl e
      | Inr client \<Rightarrow>
          if \<not> llm_truthy w client
          then Inl (Exn RuntimeError
                 (u ''Failed to initialize any LLM. Please check your API keys and model configurations.''))
          else Inr client)"

definition base_agent :: "('c, 'a, 't) world \<Rightarrow> 'c \<Rightarrow> ustring \<Rightarrow> ustring \<Rightarrow> ustring \<Rightarrow> exn + 'a" where
  "base_agent w self_llm role_text goal_text backstory_text =
     new_Agent w
       \<lparr>role = clean_surrogates (PStr role_text),
        goal = clean_surrogates (PStr goal_text),
        backstory = clean_surrogates (PStr backstory_text),
        verbose = True,
        allow_delegation = False,
        max_iter = 5,
        llm = (if llm_truthy w self_llm then Some self_llm else None)\<rparr>"

definition city_selector_agent :: "('c, 'a, 't) world \<Rightarrow> 'c \<Rightarrow> exn + 'a" where
  "city_selector_agent w self_llm =
     base_agent w self_llm
       (u ''City Selection Expert'')
       (u ''Identify the 3 best cities to visit based on user preferences including travel type, '' @
          u ''interests, and season'')
       (u ''You are an expert travel geographer with extensive knowledge of global destinations.'' @ [10] @
          u ''            You specialize in matching travelers with perfect cities based on their '' @
          u ''preferences, interests, and travel seasons.'' @ [10] @
          u ''            You always provide exactly 3 city recommendations with clear reasoning, '' @
          u ''covering various aspects like culture, adventure, and relaxation.'')"

definition local_expert_agent :: "('c, 'a, 't) world \<Rightarrow> 'c \<Rightarrow> exn + 'a" where
  "local_expert_agent w self_llm =
     base_agent w self_llm
       (u ''Local Destination Expert'')
       (u ''Provide comprehensive insights about the selected city including attractions, culture, '' @
          u ''and practical tips'')
       (u ''You are a knowledgeable local guide with insider knowledge about cities worldwide.'' @ [10] @
          u ''            You provide detailed information about attractions, local customs, cuisine, '' @
          u ''and practical travel tips'' @ [10] @
          u ''            that help visitors have an authentic and enjoyable experience.'')"

definition travel_planner_agent :: "('c, 'a, 't) world \<Rightarrow> 'c \<Rightarrow> exn + 'a" where
  "travel_planner_agent w self_llm =
     base_agent w self_llm
       (u ''Professional Travel Planner'')
       (u ''Create detailed, practical day-by-day itineraries that maximize the travel experience'')
       (u ''You are an experienced professional travel planner who creates efficient,'' @ [10] @
          u ''            well-organized itineraries. You consider travel time, opening hours, '' @
          u ''proximity of attractions,'' @ [10] @
          u ''            and optimal scheduling to create the best possible travel experience.'')"

definition budget_manager_agent :: "('c, 'a, 't) world \<Rightarrow> 'c \<Rightarrow> exn + 'a" where
  "budget_manager_agent w self_llm =
     base_agent w self_llm
       (u ''Travel Budget Specialist'')
       (u ''Create realistic budget plans that balance cost-effectiveness with quality experiences'')
       (u ''You are a financial planning expert specializing in travel budgets.'' @ [10] @
          u ''            You help travelers get the most value for their money while ensuring they '' @
          u ''don't overspend.'' @ [10] @
          u ''            You consider all aspects of travel costs and provide practical budget '' @
          u ''breakdowns.'')"

text \<open>
  The task methods of \<^verbatim>\<open>TripTasks\<close>: the description is the f-string of the
  source, line by line (\<open>[10]\<close> is the line feed).
\<close>

definition city_selection_task :: "('c, 'a, 't) world \<Rightarrow> 'a \<Rightarrow> inputs \<Rightarrow> exn + 't" where
  "city_selection_task w selector inputs =
     new_Task w
       \<lparr>description = clean_surrogates (PStr
         ([10] @
          u ''        Based on the following user preferences, select the 3 best cities to visit:'' @ [10] @
          [10] @
          u ''        Travel Type: '' @ py_str (get_default (travel_type inputs) (u ''Not specified'')) @ [10] @
          u ''        Interests: '' @ py_str (get_default (interests inputs) (u ''Not specified'')) @ [10] @
          u ''        Season: '' @ py_str (get_default (season inputs) (u ''Not specified'')) @ [10] @
          u ''        Budget Range: '' @ py_str (get_default (budget inputs) (u ''Not specified'')) @ [10] @
          u ''        Duration: '' @ py_str (get_default (duration inputs) (u ''Not specified'')) @ u '' days'' @ [10] @
          [10] @
          u ''        For each city, provide:'' @ [10] @
          u ''        1. City name and country'' @ [10] @
          u ''        2. Why it matches their travel type and interests'' @ [10] @
          u ''        3. Why it's perfect for the specified season'' @ [10] @
          u ''        4. Brief highlight of what makes it special'' @ [10] @
          [10] @
          u ''        Format your response as a numbered list with city names clearly stated.'' @ [10] @
          u ''        '')),
        agent = selector,
        expected_output = clean_surrogates (PStr
         (u ''A numbered list of exactly 3 cities with clear city names and 2-3 sentence explanations '' @
          u ''for each, explaining why each city is perfect for the user's preferences. Example: '1. '' @
          u ''Paris, France - ...'' @ [39]))\<rparr>"

definition city_research_task :: "('c, 'a, 't) world \<Rightarrow> 'a \<Rightarrow> ustring \<Rightarrow> exn + 't" where
  "city_research_task w researcher city =
     new_Task w
       \<lparr>description = clean_surrogates (PStr
         ([10] @
          u ''        Provide comprehensive research about '' @ city @ u '' including:'' @ [10] @
          [10] @
          u ''        1. TOP 5 ATTRACTIONS: Must-visit places with brief descriptions and estimated '' @
          u ''time to visit each.'' @ [10] @
          u ''        2. LOCAL CUISINE: Signature dishes and where to find them (e.g., specific types '' @
          u ''of restaurants or markets).'' @ [10] @
          u ''        3. CULTURAL INSIGHTS: Important customs, etiquette, and cultural norms (e.g., '' @
          u ''tipping, greetings).'' @ [10] @
          u ''        4. ACCOMMODATION: Best areas to stay for different budgets (e.g., luxury, '' @
          u ''mid-range, budget) and types of lodging.'' @ [10] @
          u ''        5. TRANSPORTATION: How to get around the city efficiently (public transport, '' @
          u ''taxis, ride-shares) and airport transfers.'' @ [10] @
          u ''        6. BEST TIME TO VISIT: Optimal months, what to expect regarding weather and '' @
          u ''crowds, and major events if any.'' @ [10] @
          u ''        7. PRACTICAL TIPS: Essential information for first-time visitors (e.g., '' @
          u ''currency, safety, language basics, common scams).'' @ [10] @
          [10] @
          u ''        Make this practical and actionable for travelers, using bullet points or '' @
          u ''numbered lists where appropriate for clarity.'' @ [10] @
          u ''        '')),
        agent = researcher,
        expected_output = clean_surrogates (PStr
         (u ''Well-organized sections with clear headings (e.g., 'TOP 5 ATTRACTIONS', 'LOCAL '' @
          u ''CUISINE'), using bullet points or numbered lists, and practical, actionable information '' @
          u ''that helps travelers understand and navigate the destination effectively. Include '' @
          u ''estimated costs or price ranges where applicable for a specific budget range if '' @
          u ''mentioned in inputs.''))\<rparr>"

definition itinerary_creation_task :: "('c, 'a, 't) world \<Rightarrow> 'a \<Rightarrow> inputs \<Rightarrow> ustring \<Rightarrow> exn + 't" where
  "itinerary_creation_task w planner inputs city =
     (let duration_v = get_default (duration inputs) (u ''3'');
          travel_type_v = get_default (travel_type inputs) (u ''leisure'');
          interests_v = get_default (interests inputs) (u ''general sightseeing'')
      in new_Task w
       \<lparr>description = clean_surrogates (PStr
         ([10] @
          u ''        Create a detailed '' @ py_str duration_v @ u ''-day itinerary for '' @ city @ u '' based on:'' @ [10] @
          u ''        - Travel Type: '' @ py_str travel_type_v @ [10] @
          u ''        - Interests: '' @ py_str interests_v @ [10] @
          u ''        - Duration: '' @ py_str duration_v @ u '' days'' @ [10] @
          u ''        - Current location: Surat, Gujarat, India (Consider this for travel logistics '' @
          u ''if applicable, but focus on the destination city itself)'' @ [10] @
          [10] @
          u ''        For each day, include:'' @ [10] @
          u ''        1. DAY NUMBER: Clearly state the day (e.g., 'Day 1: Arrival and City '' @
          u ''Exploration')'' @ [10] @
          u ''        2. Morning activities (9 AM - 12 PM) with specific attractions/locations'' @ [10] @
          u ''        3. Afternoon activities (12 PM - 5 PM) with specific attractions/locations'' @ [10] @
          u ''        4. Evening activities (5 PM - 9 PM) including recommendations for '' @
          u ''dinner/nightlife'' @ [10] @
          u ''        5. Recommended restaurants for each meal (Breakfast, Lunch, Dinner) with type '' @
          u ''of cuisine'' @ [10] @
          u ''        6. Estimated transportation methods between locations '' @
          u ''(e.g., 'walk', 'metro', 'taxi')'' @ [10] @
          u ''        7. Estimated time for each activity'' @ [10] @
          u ''        8. Any booking requirements or tips (e.g., 'Book in advance', 'Wear comfortable '' @
          u ''shoes')'' @ [10] @
          [10] @
          u ''        Make sure activities are geographically logical, account for realistic travel '' @
          u ''time between locations,'' @ [10] @
          u ''        and maximize the experience given the specified travel type and interests.'' @ [10] @
          u ''        '')),
        agent = planner,
        expected_output = clean_surrogates (PStr
         (u ''A comprehensive day-by-day itinerary for '' @ py_str duration_v @ u '' days, clearly structured by day and time slots. Each entry should include specific '' @
          u ''activities, recommended restaurants, transportation methods, estimated timings, and '' @
          u ''practical tips, presented in a highly readable and actionable format.''))\<rparr>)"

definition budget_planning_task :: "('c, 'a, 't) world \<Rightarrow> 'a \<Rightarrow> inputs \<Rightarrow> ustring \<Rightarrow> exn + 't" where
  "budget_planning_task w budgeter inputs city =
     (let budget_range = get_default (budget inputs) (u ''moderate'');
          duration_v = get_default (duration inputs) (u ''3'');
          travel_type_v = get_default (travel_type inputs) (u ''leisure'')
      in new_Task w
       \<lparr>description = clean_surrogates (PStr
         ([10] @
          u ''        Create a realistic budget plan for a '' @ py_str duration_v @ u ''-day trip to '' @ city @ u '' assuming a '' @ py_str budget_range @ u '' budget.'' @ [10] @
          u ''        Consider that the traveler is from Surat, Gujarat, India, which might influence '' @
          u ''spending habits or expectations.'' @ [10] @
          [10] @
          u ''        Break down costs for the following categories:'' @ [10] @
          u ''        1. ACCOMMODATION: Per night costs and total for '' @ py_str duration_v @ u '' nights. Provide options for the given budget.'' @ [10] @
          u ''        2. MEALS: Daily averages for Breakfast, Lunch, Dinner. Provide typical costs '' @
          u ''for different meal types.'' @ [10] @
          u ''        3. TRANSPORTATION: Local transport (daily passes, single rides), airport '' @
          u ''transfers (round trip), and potentially inter-city travel if applicable.'' @ [10] @
          u ''        4. ATTRACTIONS: Entry fees for major sights and activities.'' @ [10] @
          u ''        5. SHOPPING & MISCELLANEOUS: Estimated daily allowance for souvenirs, snacks, '' @
          u ''coffee, and small purchases.'' @ [10] @
          u ''        6. EMERGENCY FUND: A recommended 10-15% buffer of the total estimated cost.'' @ [10] @
          [10] @
          u ''        Provide:'' @ [10] @
          u ''        - Daily budget estimates for each category.'' @ [10] @
          u ''        - Total estimated budget for the entire '' @ py_str duration_v @ u ''-day trip.'' @ [10] @
          u ''        - Money-saving tips specific to '' @ city @ u ''.'' @ [10] @
          u ''        - Splurge recommendations (e.g., a fancy dinner, unique experience) with '' @
          u ''estimated costs.'' @ [10] @
          [10] @
          u ''        Use currency relevant to the destination city or provide a clear indication '' @
          u ''(e.g., USD, EUR, local currency).'' @ [10] @
          u ''        '')),
        agent = budgeter,
        expected_output = clean_surrogates (PStr
         (u ''An itemized budget breakdown presented in a clear table or list format, with daily and '' @
          u ''total estimated costs for each category (accommodation, meals, transport, etc.). '' @
          u ''Include currency, money-saving tips, and optional splurge recommendations with price '' @
          u ''ranges.''))\<rparr>)"

section \<open>TripCrew (trip\_agents.py)\<close>

text \<open>
  A \<^verbatim>\<open>TripCrew\<close> object holds the inputs and, through its
  \<^verbatim>\<open>TripAgents\<close>, the client. Its constructor runs
  \<^verbatim>\<open>TripAgents()\<close> outside any \<^verbatim>\<open>try\<close>: an exception of
  \<^verbatim>\<open>_initialize_llm\<close> leaves the constructor.
\<close>

record 'c trip_crew =
  crew_inputs :: inputs
  crew_llm :: 'c

definition TripCrew_init :: "('c, 'a, 't) world \<Rightarrow> environment \<Rightarrow> inputs \<Rightarrow> exn + 'c trip_crew" where
  "TripCrew_init w env inputs =
     (case TripAgents_init w env of
        Inl e \<Rightarrow> Inl e
      | Inr client \<Rightarrow> Inr \<lparr>crew_inputs = inputs, crew_llm = client\<rparr>)"

text \<open>The dict that \<^verbatim>\<open>run\<close> returns, by its four keys.\<close>

record trip_plan =
  city_selection :: pyval
  city_research :: pyval
  itinerary :: pyval
  budget_plan :: pyval

text \<open>
  Step 1 of \<^verbatim>\<open>run\<close>: the selector agent, its task, the kickoff of the city crew,
  the raw text of the result
  (\<^verbatim>\<open>city_result_object.raw if hasattr(city_result_object, 'raw') else str(city_result_object.result)\<close>)
  the print of that raw text (before any cleaning), the extraction of the city and the
  print of the city (its message starts with U+2705). The text of the interpreter's
  \<^verbatim>\<open>AttributeError\<close> is abridged.
\<close>

definition select_city :: "('c, 'a, 't) world \<Rightarrow> (nat \<Rightarrow> bool) \<Rightarrow> 'c trip_crew \<Rightarrow> exn + (pyval \<times> ustring)" where
  "select_city w ua self =
     (case city_selector_agent w (crew_llm self) of Inl e \<Rightarrow> Inl e | Inr selector \<Rightarrow>
      case city_selection_task w selector (crew_inputs self) of Inl e \<Rightarrow> Inl e | Inr city_task \<Rightarrow>
      case kickoff w [selector] [city_task] of Inl e \<Rightarrow> Inl e | Inr city_result_object \<Rightarrow>
      case (case co_raw city_result_object of
              Some r \<Rightarrow> Inr r
            | None \<Rightarrow>
                (case co_result city_result_object of
                   Some v \<Rightarrow> Inr (PStr (py_str v))
                 | None \<Rightarrow> Inl (Exn AttributeError (u ''object has no attribute result''))))
        of Inl e \<Rightarrow> Inl e | Inr city_output_raw \<Rightarrow>
      case print (u ''City selection raw output: '' @ py_str city_output_raw) of Inl e \<Rightarrow> Inl e | Inr ok \<Rightarrow>
      case extract_first_city ua city_output_raw of Inl e \<Rightarrow> Inl e | Inr selected_city \<Rightarrow>
      case print ([0x2705] @ u '' Selected city for detailed planning: '' @ selected_city) of
        Inl e \<Rightarrow> Inl e | Inr ok \<Rightarrow>
      Inr (city_output_raw, selected_city))"

text \<open>Step 2: the print of the city (\<^verbatim>\<open>print(f"\<dots> Researching {selected_city}...")\<close>,
  starting with U+1F50D), then the three agents and the three tasks of the detail crew.\<close>

definition detail_crew :: "('c, 'a, 't) world \<Rightarrow> 'c trip_crew \<Rightarrow> ustring \<Rightarrow> exn + ('a list \<times> 't list)" where
  "detail_crew w self selected_city =
     (case print ([0x1F50D] @ u '' Researching '' @ selected_city @ u ''...'') of Inl e \<Rightarrow> Inl e | Inr ok \<Rightarrow>
      case local_expert_agent w (crew_llm self) of Inl e \<Rightarrow> Inl e | Inr researcher \<Rightarrow>
      case travel_planner_agent w (crew_llm self) of Inl e \<Rightarrow> Inl e | Inr planner \<Rightarrow>
      case budget_manager_agent w (crew_llm self) of Inl e \<Rightarrow> Inl e | Inr budgeter \<Rightarrow>
      case city_research_task w researcher selected_city of Inl e \<Rightarrow> Inl e | Inr research_task \<Rightarrow>
      case itinerary_creation_task w planner (crew_inputs self) selected_city of Inl e \<Rightarrow> Inl e | Inr itinerary_task \<Rightarrow>
      case budget_planning_task w budgeter (crew_inputs self) selected_city of Inl e \<Rightarrow> Inl e | Inr budget_task \<Rightarrow>
      Inr ([researcher, planner, budgeter], [research_task, itinerary_task, budget_task]))"

text \<open>\<^verbatim>\<open>task_result.raw if hasattr(task_result, 'raw') else str(task_result)\<close>\<close>

definition output_text :: "task_output \<Rightarrow> pyval" where
  "output_text task_result =
     (case to_raw task_result of Some r \<Rightarrow> r | None \<Rightarrow> PStr (to_str task_result))"

text \<open>
  The loop over \<^verbatim>\<open>tasks_output\<close>: each output goes to the first of research,
  itinerary and budget whose word is in its lowered description, and replaces what that
  variable held. (The descriptions are lowered by \<open>lower\<close>, the ASCII part of
  \<^verbatim>\<open>str.lower()\<close>.)
\<close>

fun dispatch :: "task_output list \<Rightarrow> pyval \<times> pyval \<times> pyval \<Rightarrow> pyval \<times> pyval \<times> pyval" where
  "dispatch [] outputs = outputs"
| "dispatch (task_result # rest) (city_research_output, itinerary_output, budget_output) =
     dispatch rest
       (if contains (lower (to_description task_result)) (u ''research'')
        then (output_text task_result, itinerary_output, budget_output)
        else if contains (lower (to_description task_result)) (u ''itinerary'')
        then (city_research_output, output_text task_result, budget_output)
        else if contains (lower (to_description task_result)) (u ''budget'')
        then (city_research_output, itinerary_output, output_text task_result)
        else (city_research_output, itinerary_output, budget_output))"

text \<open>
  The three output variables start as \<^verbatim>\<open>"No research available"\<close>,
  \<^verbatim>\<open>"No itinerary available"\<close> and \<^verbatim>\<open>"No budget available"\<close>. Without a
  non-empty \<^verbatim>\<open>tasks_output\<close> all three become the text of the whole result.
\<close>

definition collect_outputs :: "crew_output \<Rightarrow> pyval \<times> pyval \<times> pyval" where
  "collect_outputs detailed_results_object =
     (case co_tasks_output detailed_results_object of
        Some (t # ts) \<Rightarrow>
          dispatch (t # ts)
            (PStr (u ''No research available''), PStr (u ''No itinerary available''),
             PStr (u ''No budget available''))
      | _ \<Rightarrow>
          (let result_str = PStr (case co_result detailed_results_object of
                                    Some v \<Rightarrow> py_str v
                                  | None \<Rightarrow> co_str detailed_results_object)
           in (result_str, result_str, result_str)))"

text \<open>
  For the statements: the variable that the loop assigns a task output to, and the value
  a variable holds after the loop, which is the text of the last output assigned to it, or
  what it held before when none is.
\<close>

definition to_research :: "task_output \<Rightarrow> bool" where
  "to_research t = contains (lower (to_description t)) (u ''research'')"

definition to_itinerary :: "task_output \<Rightarrow> bool" where
  "to_itinerary t = (\<not> to_research t \<and> contains (lower (to_description t)) (u ''itinerary''))"

definition to_budget :: "task_output \<Rightarrow> bool" where
  "to_budget t = (\<not> to_research t \<and> \<not> contains (lower (to_description t)) (u ''itinerary'')
     \<and> contains (lower (to_description t)) (u ''budget''))"

definition last_output :: "(task_output \<Rightarrow> bool) \<Rightarrow> task_output list \<Rightarrow> pyval \<Rightarrow> pyval" where
  "last_output P outs before =
     (if filter P outs = [] then before else output_text (last (filter P outs)))"

text \<open>The body of the \<^verbatim>\<open>try\<close> block of \<^verbatim>\<open>run\<close>.\<close>

definition run_try :: "('c, 'a, 't) world \<Rightarrow> (nat \<Rightarrow> bool) \<Rightarrow> 'c trip_crew \<Rightarrow> exn + trip_plan" where
  "run_try w ua self =
     (case select_city w ua self of Inl e \<Rightarrow> Inl e | Inr (city_output_raw, selected_city) \<Rightarrow>
      case detail_crew w self selected_city of Inl e \<Rightarrow> Inl e | Inr (agents, tasks) \<Rightarrow>
      case kickoff w agents tasks of Inl e \<Rightarrow> Inl e | Inr detailed_results_object \<Rightarrow>
      (case collect_outputs detailed_results_object of
         (city_research_output, itinerary_output, budget_output) \<Rightarrow>
           Inr \<lparr>city_selection = clean_surrogates city_output_raw,
                city_research = clean_surrogates city_research_output,
                itinerary = clean_surrogates itinerary_output,
                budget_plan = clean_surrogates budget_output\<rparr>))"

text \<open>The dict of the \<^verbatim>\<open>except Exception as e\<close> block.\<close>

definition error_plan :: "exn \<Rightarrow> trip_plan" where
  "error_plan e =
     \<lparr>city_selection = PStr (u ''Error occurred during city selection: '' @ str_exn e @
        u ''. Please check your API configuration and try again.''),
      city_research = PStr (u ''Unable to generate due to error''),
      itinerary = PStr (u ''Unable to generate due to error''),
      budget_plan = PStr (u ''Unable to generate due to error'')\<rparr>"

text \<open>
  \<^verbatim>\<open>TripCrew.run\<close>: the \<^verbatim>\<open>try\<close> block, and the \<^verbatim>\<open>except\<close>
  block for whatever exception leaves it. The \<^verbatim>\<open>except\<close> block first prints
  the exception (\<^verbatim>\<open>print(f"\<dots> Error in TripCrew.run(): {e}")\<close>, starting
  with U+274C), then the traceback to the standard error, which escapes what it cannot
  encode, and then returns the dict of placeholders. An exception of that print leaves
  \<^verbatim>\<open>run\<close>. The result is a sum so that returning, as opposed to raising, is a
  statement about the function.
\<close>

definition run :: "('c, 'a, 't) world \<Rightarrow> (nat \<Rightarrow> bool) \<Rightarrow> 'c trip_crew \<Rightarrow> exn + trip_plan" where
  "run w ua self =
     (case run_try w ua self of
        Inr plan \<Rightarrow> Inr plan
      | Inl e \<Rightarrow>
          (case print ([0x274C] @ u '' Error in TripCrew.run(): '' @ str_exn e) of
             Inl print_error \<Rightarrow> Inl print_error
           | Inr ok \<Rightarrow> Inr (error_plan e)))"

text \<open>\<^verbatim>\<open>TripCrew(inputs).run()\<close>, as \<^verbatim>\<open>main()\<close> of main.py calls it.\<close>

definition plan_trip :: "('c, 'a, 't) world \<Rightarrow> environment \<Rightarrow> (nat \<Rightarrow> bool) \<Rightarrow> inputs \<Rightarrow> exn + trip_plan" where
  "plan_trip w env ua inputs =
     (case TripCrew_init w env inputs of Inl e \<Rightarrow> Inl e | Inr crew \<Rightarrow> run w ua crew)"

text \<open>
  Worlds for the worked examples: the constructors of agents and tasks give back their
  configuration, every client is true, and the kickoff is scripted. The city crew (one
  task) answers \<^verbatim>\<open>1. Paris, France - ...\<close>; the detail crew (three tasks) either
  raises because its itinerary task fails, or returns the outputs of the research and the
  budget task only.
\<close>

definition paris_output :: crew_output where
  "paris_output = \<lparr>co_raw = Some (PStr (u ''1. Paris, France - ...'')), co_result = None,
     co_tasks_output = None, co_str = []\<rparr>"

definition itinerary_raises :: "ustring agent_config list \<Rightarrow> ustring agent_config task_config list \<Rightarrow> exn + crew_output" where
  "itinerary_raises agents tasks =
     (if length tasks = 1 then Inr paris_output
      else Inl (Exn LibraryError (u ''itinerary task: rate limit reached'')))"

definition research_and_budget :: "task_output list" where
  "research_and_budget =
     [\<lparr>to_description = u ''Provide comprehensive research about Paris'',
       to_raw = Some (PStr (u ''Louvre, Orsay'')), to_str = []\<rparr>,
      \<lparr>to_description = u ''Create a realistic budget plan for a 7-day trip to Paris'',
       to_raw = Some (PStr (u ''EUR 2100'')), to_str = []\<rparr>]"

definition itinerary_missing :: "ustring agent_config list \<Rightarrow> ustring agent_config task_config list \<Rightarrow> exn + crew_output" where
  "itinerary_missing agents tasks =
     (if length tasks = 1 then Inr paris_output
      else Inr \<lparr>co_raw = None, co_result = None, co_tasks_output = Some research_and_budget,
             co_str = []\<rparr>)"

definition kickoff_raises :: "ustring agent_config list \<Rightarrow> ustring agent_config task_config list \<Rightarrow> exn + crew_output" where
  "kickoff_raises agents tasks = Inl (Exn LibraryError (u ''connection refused''))"

text \<open>Two more scripts: a kickoff that raises with a text that holds the lone surrogate
  U+DC80, and a city crew whose raw text holds it.\<close>

definition kickoff_raises_unprintably :: "ustring agent_config list \<Rightarrow> ustring agent_config task_config list \<Rightarrow> exn + crew_output" where
  "kickoff_raises_unprintably agents tasks = Inl (Exn LibraryError (u ''bad byte '' @ [0xDC80]))"

definition surrogate_output :: "ustring agent_config list \<Rightarrow> ustring agent_config task_config list \<Rightarrow> exn + crew_output" where
  "surrogate_output agents tasks =
     Inr \<lparr>co_raw = Some (PStr (u ''1. Paris'' @ [0xDC80] @ u '', France - ...'')), co_result = None,
          co_tasks_output = None, co_str = []\<rparr>"

definition always_true :: "ustring \<Rightarrow> bool" where
  "always_true c = True"

definition scripted_world ::
  "(ustring agent_config list \<Rightarrow> ustring agent_config task_config list \<Rightarrow> exn + crew_output)
   \<Rightarrow> (ustring, ustring agent_config, ustring agent_config task_config) world" where
  "scripted_world k = \<lparr>new_LLM = primary_refused, llm_truthy = always_true, new_Agent = Inr,
     new_Task = Inr, kickoff = k\<rparr>"

definition example_crew :: "ustring trip_crew" where
  "example_crew = \<lparr>crew_inputs = winter_food_trip, crew_llm = u ''mixtral-8x7b-32768''\<rparr>"

section \<open>Properties of clean\_surrogates\<close>

lemma re_sub_class_empty_filter:
  "re_sub_class cls [] s = filter (\<lambda>c. \<not> cls c) s"
  by (induction s) simp_all

text \<open>
  C10. \<^verbatim>\<open>clean_surrogates\<close> is idempotent; on a string it removes exactly the
  code units U+D800 to U+DFFF (the result is the input with those code points filtered
  out, so a string with none of them is returned unchanged); a value that is not a string
  is returned unchanged.
\<close>

theorem clean_surrogates_idempotent_exact:
  "clean_surrogates (clean_surrogates x) = clean_surrogates x
   \<and> clean_surrogates (PStr s) = PStr (filter (\<lambda>c. \<not> (55296 \<le> c \<and> c \<le> 57343)) s)
   \<and> ((\<forall>c \<in> set s. \<not> (55296 \<le> c \<and> c \<le> 57343)) \<longrightarrow> clean_surrogates (PStr s) = PStr s)
   \<and> ((\<forall>t. x \<noteq> PStr t) \<longrightarrow> clean_surrogates x = x)"
proof -
  have flt: "clean_surrogates (PStr t) = PStr (filter (\<lambda>c. \<not> (55296 \<le> c \<and> c \<le> 57343)) t)" for t
    by (simp add: re_sub_class_empty_filter surrogate_def)
  have idem: "clean_surrogates (clean_surrogates x) = clean_surrogates x"
  proof (cases x)
    case (PStr t)
    then show ?thesis by (simp only: flt) simp
  qed simp_all
  have same: "(\<forall>c \<in> set s. \<not> (55296 \<le> c \<and> c \<le> 57343)) \<longrightarrow> clean_surrogates (PStr s) = PStr s"
    by (simp only: flt) (simp add: filter_id_conv)
  have other: "(\<forall>t. x \<noteq> PStr t) \<longrightarrow> clean_surrogates x = x"
    by (cases x) simp_all
  from idem flt [of s] same other show ?thesis by simp
qed

theorem clean_surrogates_idempotent_exact_witness:
  "clean_surrogates (clean_surrogates (PStr [80, 55357, 97, 56832, 114])) = PStr [80, 97, 114]
   \<and> clean_surrogates (PStr [80, 97, 114]) = PStr [80, 97, 114]
   \<and> list_all (\<lambda>c. \<not> (55296 \<le> c \<and> c \<le> 57343)) [80, 97, 114 :: nat]
   \<and> clean_surrogates (clean_surrogates (PInt 7)) = PInt 7"
  using clean_surrogates_idempotent_exact [of "PStr [80, 55357, 97, 56832, 114]" "[80, 97, 114]"]
    clean_surrogates_idempotent_exact [of "PInt 7" "[]"]
  by (simp add: surrogate_def)

section \<open>Properties of extract\_first\_city\<close>

lemmas pat_defs = patterns_def pattern1_def pattern2_def pattern3_def pattern4_def name_group_def name_end_def lit_def
  findall_def match_at_def u_def upper_def letter_or_space_def separator_def bullet_def space_def word_char_def word_boundary_def below_def
lemmas ext_defs = extract_first_city_def surrogate_def accepted_def strip_def lower_def lower_char_def excluded_words_def endswith_def default_city_def

text \<open>
  What the patterns capture: every character of a capture is an ASCII letter or a
  whitespace character, and so is every character of a stripped capture.
\<close>

lemma rep_greedy_sound:
  "rep_greedy cls lo hi k g n pre rest = Some res \<Longrightarrow>
   \<exists>t rest'. rest = t @ rest' \<and> list_all cls t \<and> k (rev t @ pre, rest', g) = Some res"
proof (induction rest arbitrary: n pre)
  case Nil
  then show ?case by (simp split: if_splits)
next
  case (Cons c cs)
  show ?case
  proof (cases "cls c \<and> below n hi \<and> rep_greedy cls lo hi k g (Suc n) (c # pre) cs \<noteq> None")
    case True
    with Cons.prems have "rep_greedy cls lo hi k g (Suc n) (c # pre) cs = Some res" by auto
    from Cons.IH [OF this] obtain t rest' where
      "cs = t @ rest'" "list_all cls t" "k (rev t @ c # pre, rest', g) = Some res" by blast
    with True have "c # cs = (c # t) @ rest' \<and> list_all cls (c # t) \<and> k (rev (c # t) @ pre, rest', g) = Some res"
      by simp
    then show ?thesis by blast
  next
    case False
    with Cons.prems have "k (pre, c # cs, g) = Some res" by (auto split: if_splits option.splits)
    then have "c # cs = [] @ (c # cs) \<and> list_all cls [] \<and> k (rev [] @ pre, c # cs, g) = Some res" by simp
    then show ?thesis by blast
  qed
qed

lemma rep_lazy_sound:
  "rep_lazy cls lo hi k g n pre rest = Some res \<Longrightarrow>
   \<exists>t rest'. rest = t @ rest' \<and> list_all cls t \<and> k (rev t @ pre, rest', g) = Some res"
proof (induction rest arbitrary: n pre)
  case Nil
  then show ?case by (simp split: if_splits)
next
  case (Cons c cs)
  show ?case
  proof (cases "lo \<le> n \<and> k (pre, c # cs, g) \<noteq> None")
    case True
    with Cons.prems have "k (pre, c # cs, g) = Some res" by auto
    then have "c # cs = [] @ (c # cs) \<and> list_all cls [] \<and> k (rev [] @ pre, c # cs, g) = Some res" by simp
    then show ?thesis by blast
  next
    case False
    with Cons.prems have c: "cls c" and r: "rep_lazy cls lo hi k g (Suc n) (c # pre) cs = Some res"
      by (auto split: if_splits option.splits)
    from Cons.IH [OF r] obtain t rest' where
      "cs = t @ rest'" "list_all cls t" "k (rev t @ c # pre, rest', g) = Some res" by blast
    with c have "c # cs = (c # t) @ rest' \<and> list_all cls (c # t) \<and> k (rev (c # t) @ pre, rest', g) = Some res"
      by simp
    then show ?thesis by blast
  qed
qed

lemma grp_ok_mono: "grp_ok P g g' \<Longrightarrow> (\<And>x. P x \<Longrightarrow> Q x) \<Longrightarrow> grp_ok Q g g'"
  unfolding grp_ok_def by (auto simp: list_all_iff)

lemma grp_ok_trans: "grp_ok P g g1 \<Longrightarrow> grp_ok P g1 g2 \<Longrightarrow> grp_ok P g g2"
  unfolding grp_ok_def by auto

lemma soundI:
  "rest = t @ rest' \<Longrightarrow> list_all P t \<Longrightarrow> grp_ok G g g' \<Longrightarrow> k (rev t @ pre, rest', g') = Some res
   \<Longrightarrow> \<exists>t rest' g'. rest = t @ rest' \<and> list_all P t \<and> grp_ok G g g' \<and> k (rev t @ pre, rest', g') = Some res"
  by (rule exI [of _ t], rule exI [of _ rest'], rule exI [of _ g']) simp

lemma grp_ok_refl: "grp_ok P g g"
  by (simp add: grp_ok_def)

lemma list_all_weaken: "list_all P t \<Longrightarrow> (\<And>x. P x \<Longrightarrow> Q x) \<Longrightarrow> list_all Q t"
  by (simp add: list_all_iff)

lemma run_re_sound:
  "run_re r (pre, rest, g) k = Some res \<Longrightarrow>
   \<exists>t rest' g'. rest = t @ rest' \<and> list_all (may r) t \<and> grp_ok (gmay r) g g'
      \<and> k (rev t @ pre, rest', g') = Some res"
proof (induction r arbitrary: pre rest g k)
  case (Cls cls)
  show ?case
  proof (cases rest)
    case Nil
    with Cls show ?thesis by simp
  next
    case (Cons c cs)
    with Cls have c: "cls c" and k: "k (c # pre, cs, g) = Some res" by (simp_all split: if_splits)
    show ?thesis
    proof (rule soundI [of _ "[c]" cs _ _ g g])
      show "rest = [c] @ cs" using Cons by simp
      show "list_all (may (Cls cls)) [c]" using c by simp
      show "grp_ok (gmay (Cls cls)) g g" by (rule grp_ok_refl)
      show "k (rev [c] @ pre, cs, g) = Some res" using k by simp
    qed
  qed
next
  case (Rep cls lo hi gr)
  have "\<exists>t rest'. rest = t @ rest' \<and> list_all cls t \<and> k (rev t @ pre, rest', g) = Some res"
  proof (cases gr)
    case True
    with Rep have "rep_greedy cls lo hi k g 0 pre rest = Some res" by simp
    then show ?thesis by (rule rep_greedy_sound)
  next
    case False
    with Rep have "rep_lazy cls lo hi k g 0 pre rest = Some res" by simp
    then show ?thesis by (rule rep_lazy_sound)
  qed
  then obtain t rest' where t: "rest = t @ rest'" "list_all cls t" "k (rev t @ pre, rest', g) = Some res"
    by (elim exE conjE)
  show ?case
  proof (rule soundI [of _ t rest' _ _ g g])
    show "rest = t @ rest'" by (rule t(1))
    show "list_all (may (Rep cls lo hi gr)) t" using t(2) by (rule list_all_weaken) simp
    show "grp_ok (gmay (Rep cls lo hi gr)) g g" by (rule grp_ok_refl)
    show "k (rev t @ pre, rest', g) = Some res" by (rule t(3))
  qed
next
  case (Seq a b)
  from Seq.prems have "run_re a (pre, rest, g) (\<lambda>p'. run_re b p' k) = Some res" by simp
  from Seq.IH(1) [OF this] obtain t1 rest1 g1 where
    a: "rest = t1 @ rest1" "list_all (may a) t1" "grp_ok (gmay a) g g1"
       "run_re b (rev t1 @ pre, rest1, g1) k = Some res" by (elim exE conjE)
  from Seq.IH(2) [OF a(4)] obtain t2 rest2 g2 where
    b: "rest1 = t2 @ rest2" "list_all (may b) t2" "grp_ok (gmay b) g1 g2"
       "k (rev t2 @ rev t1 @ pre, rest2, g2) = Some res" by (elim exE conjE)
  have m1: "list_all (may (Seq a b)) t1" using a(2) by (rule list_all_weaken) simp
  have m2: "list_all (may (Seq a b)) t2" using b(2) by (rule list_all_weaken) simp
  have "grp_ok (gmay (Seq a b)) g g1" using a(3) by (rule grp_ok_mono) simp
  moreover have "grp_ok (gmay (Seq a b)) g1 g2" using b(3) by (rule grp_ok_mono) simp
  ultimately have g: "grp_ok (gmay (Seq a b)) g g2" by (rule grp_ok_trans)
  show ?case
  proof (rule soundI [of _ "t1 @ t2" rest2 _ _ g g2])
    show "rest = (t1 @ t2) @ rest2" using a(1) b(1) by simp
    show "list_all (may (Seq a b)) (t1 @ t2)" using m1 m2 by simp
    show "grp_ok (gmay (Seq a b)) g g2" by (rule g)
    show "k (rev (t1 @ t2) @ pre, rest2, g2) = Some res" using b(4) by simp
  qed
next
  case (Alt a b)
  show ?case
  proof (cases "run_re a (pre, rest, g) k")
    case None
    with Alt.prems have "run_re b (pre, rest, g) k = Some res" by simp
    from Alt.IH(2) [OF this] obtain t rest' g' where
      t: "rest = t @ rest'" "list_all (may b) t" "grp_ok (gmay b) g g'" "k (rev t @ pre, rest', g') = Some res"
      by (elim exE conjE)
    show ?thesis
    proof (rule soundI [of _ t rest' _ _ g g'])
      show "rest = t @ rest'" by (rule t(1))
      show "list_all (may (Alt a b)) t" using t(2) by (rule list_all_weaken) simp
      show "grp_ok (gmay (Alt a b)) g g'" using t(3) by (rule grp_ok_mono) simp
      show "k (rev t @ pre, rest', g') = Some res" by (rule t(4))
    qed
  next
    case (Some x)
    with Alt.prems have "run_re a (pre, rest, g) k = Some res" by simp
    from Alt.IH(1) [OF this] obtain t rest' g' where
      t: "rest = t @ rest'" "list_all (may a) t" "grp_ok (gmay a) g g'" "k (rev t @ pre, rest', g') = Some res"
      by (elim exE conjE)
    show ?thesis
    proof (rule soundI [of _ t rest' _ _ g g'])
      show "rest = t @ rest'" by (rule t(1))
      show "list_all (may (Alt a b)) t" using t(2) by (rule list_all_weaken) simp
      show "grp_ok (gmay (Alt a b)) g g'" using t(3) by (rule grp_ok_mono) simp
      show "k (rev t @ pre, rest', g') = Some res" by (rule t(4))
    qed
  qed
next
  case (Grp a)
  from Grp.prems have "run_re a (pre, rest, g)
      (\<lambda>(pre', rest', g'). k (pre', rest', Some (rev (take (length pre' - length pre) pre')))) = Some res"
    by simp
  from Grp.IH [OF this] obtain t rest' g' where
    a: "rest = t @ rest'" "list_all (may a) t" "grp_ok (gmay a) g g'"
       "(case (rev t @ pre, rest', g') of
           (pre', rest', g') \<Rightarrow> k (pre', rest', Some (rev (take (length pre' - length pre) pre'))))
          = Some res"
    by (elim exE conjE)
  from a(4) have k: "k (rev t @ pre, rest', Some t) = Some res" by simp
  show ?case
  proof (rule soundI [of _ t rest' _ _ g "Some t"])
    show "rest = t @ rest'" by (rule a(1))
    show "list_all (may (Grp a)) t" using a(2) by (rule list_all_weaken) simp
    show "grp_ok (gmay (Grp a)) g (Some t)" using a(2) by (simp add: grp_ok_def list_all_iff)
    show "k (rev t @ pre, rest', Some t) = Some res" by (rule k)
  qed
next
  case (WordB w)
  then have k: "k (pre, rest, g) = Some res" by (simp split: if_splits)
  show ?case
  proof (rule soundI [of _ "[]" rest _ _ g g])
    show "rest = [] @ rest" by simp
    show "list_all (may (WordB w)) []" by simp
    show "grp_ok (gmay (WordB w)) g g" by (rule grp_ok_refl)
    show "k (rev [] @ pre, rest, g) = Some res" using k by simp
  qed
qed

lemma match_at_group:
  assumes "match_at r pre rest = Some (t, n)"
  shows "list_all (gmay r) t"
proof -
  from assms have "run_re r (pre, rest, None)
      (\<lambda>(pre', rest', g). Some (case g of None \<Rightarrow> [] | Some t \<Rightarrow> t, length pre' - length pre)) = Some (t, n)"
    by (simp add: match_at_def)
  from run_re_sound [OF this] show ?thesis
    by (auto simp: grp_ok_def split: option.splits)
qed

lemma findall_from_group: "m \<in> set (findall_from r k p s) \<Longrightarrow> list_all (gmay r) m"
proof (induction s arbitrary: k p)
  case Nil
  show ?case
  proof (cases "match_at r p []")
    case None
    with Nil have False by (cases "k = 0") simp_all
    then show ?thesis ..
  next
    case (Some tn)
    obtain t n where tn: "tn = (t, n)" by (cases tn)
    with Some Nil have "m = t" by (cases "k = 0") simp_all
    with Some tn show ?thesis by (auto dest: match_at_group)
  qed
next
  case (Cons c cs)
  show ?case
  proof (cases "k = 0")
    case False
    with Cons.prems have "m \<in> set (findall_from r (k - 1) (c # p) cs)" by simp
    then show ?thesis by (rule Cons.IH)
  next
    case True
    show ?thesis
    proof (cases "match_at r p (c # cs)")
      case None
      with True Cons.prems have "m \<in> set (findall_from r 0 (c # p) cs)" by simp
      then show ?thesis by (rule Cons.IH)
    next
      case (Some tn)
      obtain t n where tn: "tn = (t, n)" by (cases tn)
      with Some True Cons.prems have "m = t \<or> m \<in> set (findall_from r (n - 1) (c # p) cs)" by simp
      then show ?thesis
      proof
        assume "m = t"
        with Some tn show ?thesis by (auto dest: match_at_group)
      next
        assume "m \<in> set (findall_from r (n - 1) (c # p) cs)"
        then show ?thesis by (rule Cons.IH)
      qed
    qed
  qed
qed

lemma gmay_patterns: "p \<in> set (patterns ua) \<Longrightarrow> gmay p c \<Longrightarrow> letter_or_space c"
  by (auto simp: patterns_def pattern1_def pattern2_def pattern3_def pattern4_def name_group_def
      name_end_def lit_def upper_def letter_or_space_def)

lemma set_strip: "set (strip m) \<subseteq> set m"
proof -
  have "set (strip m) \<subseteq> set (dropWhile space m)"
    unfolding strip_def using set_dropWhileD [of _ space "rev (dropWhile space m)"] by auto
  also have "\<dots> \<subseteq> set m" using set_dropWhileD [of _ space m] by auto
  finally show ?thesis .
qed

lemma findall_patterns_chars:
  assumes "p \<in> set (patterns ua)" and "m \<in> set (findall p s)" and "c \<in> set (strip m)"
  shows "letter_or_space c"
proof -
  from assms(2) have "list_all (gmay p) m" by (simp add: findall_def findall_from_group)
  moreover from assms(3) set_strip have "c \<in> set m" by blast
  ultimately have "gmay p c" by (simp add: list_all_iff)
  with assms(1) show ?thesis by (rule gmay_patterns)
qed

lemma first_accepted_find: "first_accepted ms = List.find accepted (map strip ms)"
  by (induction ms) (simp_all add: Let_def)

lemma find_append_case:
  "List.find P (xs @ ys) = (case List.find P xs of None \<Rightarrow> List.find P ys | Some x \<Rightarrow> Some x)"
  by (induction xs) simp_all

lemma try_patterns_find:
  "try_patterns ps s =
     (case List.find accepted (map strip (concat (map (\<lambda>p. findall p s) ps))) of
        None \<Rightarrow> default_city | Some c \<Rightarrow> c)"
proof (induction ps)
  case Nil
  show ?case by simp
next
  case (Cons p ps)
  show ?case
  proof (cases "findall p s")
    case Nil
    with Cons show ?thesis by simp
  next
    case (Cons m ms)
    with Cons.IH show ?thesis
      by (simp add: Let_def first_accepted_find find_append_case split: option.split)
  qed
qed

lemma first_accepted_accepted: "first_accepted ms = Some c \<Longrightarrow> accepted c"
  by (induction ms) (simp_all add: Let_def split: if_splits)

lemma try_patterns_cases: "try_patterns ps s = default_city \<or> accepted (try_patterns ps s)"
  by (induction ps) (auto simp: Let_def first_accepted_accepted split: option.splits)

lemma try_patterns_default:
  "\<forall>p \<in> set ps. first_accepted (findall p s) = None \<Longrightarrow> try_patterns ps s = default_city"
  by (induction ps) (simp_all add: Let_def)

lemma default_city_ok: "2 < length default_city \<and> \<not> endswith (lower default_city) (u ''city'')"
  by (simp add: default_city_def u_def endswith_def lower_def lower_char_def)

lemma accepted_ok: "accepted c \<Longrightarrow> 2 < length c \<and> \<not> endswith (lower c) (u ''city'')"
  by (simp add: accepted_def)

lemma try_patterns_ok:
  "2 < length (try_patterns ps s) \<and> \<not> endswith (lower (try_patterns ps s)) (u ''city'')"
  using try_patterns_cases [of ps s] default_city_ok accepted_ok by metis

lemma extract_PStr: "extract_first_city ua (PStr s) = Inr (try_patterns (patterns ua) (re_sub_class surrogate [] s))"
  by (simp add: extract_first_city_def)

lemma extract_PDict: "extract_first_city ua (PDict d) = Inr (try_patterns (patterns ua) (re_sub_class surrogate [] d))"
  by (simp add: extract_first_city_def)

lemma paris_france_example:
  "extract_first_city ua (PStr (u ''1. Paris, France - ...'')) = Inr (u ''Paris'')"
  by (simp add: ext_defs pat_defs)

text \<open>
  C8. \<^verbatim>\<open>extract_first_city("1. Paris, France - ...")\<close> returns exactly
  \<^verbatim>\<open>"Paris"\<close>.
\<close>

theorem extract_first_city_paris_france:
  "extract_first_city ua (PStr (u ''1. Paris, France - ...'')) = Inr (u ''Paris'')"
  by (rule paris_france_example)

theorem extract_first_city_paris_france_witness:
  "extract_first_city ascii_alnum (PStr (u ''1. Paris, France - ...'')) = Inr (u ''Paris'')"
  using extract_first_city_paris_france [of ascii_alnum] .

text \<open>
  C9. For every input text the value returned by \<^verbatim>\<open>extract_first_city\<close> is
  longer than two characters and does not end with \<^verbatim>\<open>city\<close> when lowered: an
  accepted candidate has passed the filters, and the default \<^verbatim>\<open>"Paris"\<close>
  satisfies both.
\<close>

theorem extract_first_city_postcondition:
  "\<exists>c. extract_first_city ua (PStr s) = Inr c \<and> 2 < length c \<and> \<not> endswith (lower c) (u ''city'')"
  using try_patterns_ok [of "patterns ua" "re_sub_class surrogate [] s"]
  by (simp add: extract_PStr)

theorem extract_first_city_postcondition_witness:
  "\<exists>c. extract_first_city ascii_alnum (PStr (u ''- Mexico City: Rome'')) = Inr c \<and> 2 < length c
     \<and> \<not> endswith (lower c) (u ''city'')"
  using extract_first_city_postcondition [of ascii_alnum "u ''- Mexico City: Rome''"] .

lemma no_structure: "extract_first_city ua (PStr (u ''random text with no structure'')) = Inr (u ''Paris'')"
  by (simp add: ext_defs pat_defs)

lemma empty_text: "extract_first_city ua (PStr []) = Inr (u ''Paris'')"
  by (simp add: ext_defs pat_defs)

text \<open>
  C4. \<^verbatim>\<open>extract_first_city\<close> is total on strings: for every input string it
  returns (no exception) a non-empty string; when no pattern has an accepted candidate it
  returns the default \<^verbatim>\<open>"Paris"\<close>; so it does for the empty string and for
  \<^verbatim>\<open>"random text with no structure"\<close>.
\<close>

theorem extract_first_city_total:
  "(\<exists>c. extract_first_city ua (PStr s) = Inr c \<and> c \<noteq> [])
   \<and> ((\<forall>p \<in> set (patterns ua). first_accepted (findall p (re_sub_class surrogate [] s)) = None)
        \<longrightarrow> extract_first_city ua (PStr s) = Inr (u ''Paris''))
   \<and> extract_first_city ua (PStr []) = Inr (u ''Paris'')
   \<and> extract_first_city ua (PStr (u ''random text with no structure'')) = Inr (u ''Paris'')"
proof -
  have "2 < length (try_patterns (patterns ua) (re_sub_class surrogate [] s))"
    using try_patterns_ok by blast
  then have a: "\<exists>c. extract_first_city ua (PStr s) = Inr c \<and> c \<noteq> []"
    by (auto simp: extract_PStr)
  have b: "(\<forall>p \<in> set (patterns ua). first_accepted (findall p (re_sub_class surrogate [] s)) = None)
        \<longrightarrow> extract_first_city ua (PStr s) = Inr (u ''Paris'')"
    using try_patterns_default [of "patterns ua" "re_sub_class surrogate [] s"]
    by (simp add: extract_PStr default_city_def)
  from a b empty_text no_structure show ?thesis by blast
qed

lemma the_x_none:
  "list_all (\<lambda>p. first_accepted (findall p (re_sub_class surrogate [] (u ''1. The: x''))) = None)
     (patterns ascii_alnum)"
  by (simp add: ext_defs pat_defs)

lemma the_x_matches: "findall pattern1 (u ''1. The: x'') = [u ''The'']"
  by (simp add: pat_defs)

theorem extract_first_city_total_witness:
  "findall pattern1 (u ''1. The: x'') = [u ''The'']
   \<and> extract_first_city ascii_alnum (PStr (u ''1. The: x'')) = Inr (u ''Paris'')"
  using extract_first_city_total [of ascii_alnum "u ''1. The: x''"] the_x_none the_x_matches
  by (simp add: list_all_iff)

text \<open>
  C3, as stated, fails. In \<^verbatim>\<open>"1. The: Rome, Italy"\<close> the first pattern has one
  match, \<^verbatim>\<open>The\<close>, which the filter refuses; the loop goes on to the later
  patterns, and the third one yields \<^verbatim>\<open>Rome\<close>, which is returned instead of
  the default.
\<close>

theorem extract_first_city_priority_chain_counterexample:
  "findall pattern1 (u ''1. The: Rome, Italy'') = [u ''The'']
   \<and> first_accepted [u ''The''] = None
   \<and> findall (pattern3 ascii_alnum) (u ''1. The: Rome, Italy'') = [u ''The'', u ''Rome'']
   \<and> extract_first_city ascii_alnum (PStr (u ''1. The: Rome, Italy'')) = Inr (u ''Rome'')
   \<and> u ''Rome'' \<noteq> u ''Paris''"
proof -
  have a: "findall pattern1 (u ''1. The: Rome, Italy'') = [u ''The'']"
    by (simp add: pat_defs)
  have b: "first_accepted [u ''The''] = None"
    by (simp add: ext_defs u_def)
  have c: "findall (pattern3 ascii_alnum) (u ''1. The: Rome, Italy'') = [u ''The'', u ''Rome'']"
    by (simp add: pat_defs)
  have d: "extract_first_city ascii_alnum (PStr (u ''1. The: Rome, Italy'')) = Inr (u ''Rome'')"
    by (simp add: ext_defs pat_defs)
  have e: "u ''Rome'' \<noteq> u ''Paris''" by (simp add: u_def)
  from a b c d e show ?thesis by blast
qed

text \<open>
  C3, amended. The patterns are tried in their order, and a pattern whose matches are all
  refused passes the turn to the next pattern: the result is the first accepted candidate
  in the matches of pattern 1, then of pattern 2, then 3, then 4 (each in the order of
  \<^verbatim>\<open>findall\<close>), and the default only when no pattern has an accepted candidate.
\<close>

theorem extract_first_city_first_accepted_of_all_rules:
  "extract_first_city ua (PStr s) =
     Inr (case List.find accepted
                 (map strip (concat (map (\<lambda>p. findall p (re_sub_class surrogate [] s)) (patterns ua)))) of
            None \<Rightarrow> default_city | Some c \<Rightarrow> c)"
  by (simp add: extract_PStr try_patterns_find)

lemma rome_candidates:
  "map strip (concat (map (\<lambda>p. findall p (re_sub_class surrogate [] (u ''1. The: Rome, Italy''))) (patterns ascii_alnum)))
    = [u ''The'', u ''The'', u ''Rome'', u ''Rome'', u ''Italy'']"
  by (simp add: ext_defs pat_defs)

lemma rome_find: "List.find accepted [u ''The'', u ''The'', u ''Rome'', u ''Rome'', u ''Italy''] = Some (u ''Rome'')"
  by (simp add: ext_defs u_def)

theorem extract_first_city_first_accepted_of_all_rules_witness:
  "extract_first_city ascii_alnum (PStr (u ''1. The: Rome, Italy'')) = Inr (u ''Rome'')"
  using extract_first_city_first_accepted_of_all_rules [of ascii_alnum "u ''1. The: Rome, Italy''"]
  by (simp only: rome_candidates rome_find option.case)

section \<open>Properties of print\<close>

lemma printable_append: "printable (a @ b) \<longleftrightarrow> printable a \<and> printable b"
  by (auto simp: printable_def list_ex_iff)

lemma printable_Cons: "printable (c # cs) \<longleftrightarrow> \<not> surrogate c \<and> printable cs"
  by (simp add: printable_def)

lemma of_char_not_surrogate: "\<not> surrogate (of_char (c :: char))"
  using nat_of_char_less_256 [of c] unfolding surrogate_def by linarith

lemma printable_u: "printable (u s)"
  by (induction s) (simp_all add: u_def printable_def of_char_not_surrogate)

lemma print_printable: "printable text \<Longrightarrow> print text = Inr ()"
  by (simp add: print_def)


lemma print_failure_message:
  "printable m \<Longrightarrow> printable (str_exn e) \<Longrightarrow>
   print ([0x274C] @ u '' Failed to initialize '' @ m @ u '': '' @ str_exn e) = Inr ()"
  by (rule print_printable) (simp add: printable_append printable_Cons printable_u surrogate_def)

lemma resolve_attempted: "set (snd (resolve LLM sps)) \<subseteq> set sps"
  by (induction sps) (auto split: sum.splits prod.splits)

lemma try_models_resolve:
  assumes "\<forall>s \<in> set sps. printable (model s)"
    and "\<forall>s \<in> set (snd (resolve LLM sps)). \<forall>e. LLM s = Inl e \<longrightarrow> printable (str_exn e)"
  shows "try_models LLM sps tried =
     (case resolve LLM sps of
        (Some c, t) \<Rightarrow> (Built c, tried @ t)
      | (None, t) \<Rightarrow> (Failed, tried @ t))"
  using assms
proof (induction sps arbitrary: tried)
  case Nil
  show ?case by simp
next
  case (Cons sp sps)
  show ?case
  proof (cases "LLM sp")
    case (Inr c)
    then show ?thesis by simp
  next
    case (Inl e)
    with Cons.prems have p: "printable (model sp)" "printable (str_exn e)"
      and rest: "\<forall>s \<in> set sps. printable (model s)"
        "\<forall>s \<in> set (snd (resolve LLM sps)). \<forall>e. LLM s = Inl e \<longrightarrow> printable (str_exn e)"
      by (auto split: prod.splits)
    from Cons.IH [OF rest, of "tried @ [sp]"] Inl print_failure_message [OF p]
    show ?thesis by (simp split: prod.splits option.splits)
  qed
qed

lemma resolve_append:
  "resolve LLM (xs @ ys) =
     (case resolve LLM xs of
        (Some c, t) \<Rightarrow> (Some c, t)
      | (None, t) \<Rightarrow> (case resolve LLM ys of (r, t') \<Rightarrow> (r, t @ t')))"
  by (induction xs) (auto split: sum.splits prod.splits option.splits)

lemma first_accepted_strip: "first_accepted ms = Some c \<Longrightarrow> \<exists>m \<in> set ms. c = strip m"
  by (induction ms) (auto simp: Let_def split: if_splits)

lemma try_patterns_chars:
  "set ps \<subseteq> set (patterns ua) \<Longrightarrow> c \<in> set (try_patterns ps s) \<Longrightarrow> letter_or_space c"
proof (induction ps)
  case Nil
  then show ?case by (auto simp: default_city_def u_def letter_or_space_def)
next
  case (Cons p ps)
  from Cons.prems(1) have p: "p \<in> set (patterns ua)" and ps: "set ps \<subseteq> set (patterns ua)"
    by simp_all
  show ?case
  proof (cases "first_accepted (findall p s)")
    case None
    with Cons.prems(2) have "c \<in> set (try_patterns ps s)"
      by (simp add: Let_def split: if_splits)
    with ps show ?thesis by (rule Cons.IH)
  next
    case (Some city)
    then obtain m where m: "m \<in> set (findall p s)" "city = strip m"
      using first_accepted_strip by blast
    from Some have "findall p s \<noteq> []" by auto
    with Some Cons.prems(2) have "c \<in> set city" by (simp add: Let_def)
    with m p show ?thesis using findall_patterns_chars by blast
  qed
qed

lemma letter_or_space_not_surrogate: "letter_or_space c \<Longrightarrow> \<not> surrogate c"
  by (auto simp: letter_or_space_def space_def surrogate_def)

lemma selected_city_printable:
  assumes "extract_first_city ua v = Inr city"
  shows "printable city"
proof -
  from assms obtain s where "city = try_patterns (patterns ua) s"
    by (auto simp: extract_first_city_def Let_def split: pyval.splits)
  then have "\<forall>c \<in> set city. letter_or_space c"
    using try_patterns_chars [of "patterns ua" ua _ s] by simp
  then show ?thesis
    using letter_or_space_not_surrogate by (auto simp: printable_def list_ex_iff)
qed

section \<open>Properties of \_initialize\_llm\<close>

lemma groq_models_printable: "\<forall>s \<in> set (map groq_spec groq_models). printable (model s)"
  by (simp add: groq_models_def groq_spec_def printable_u)

lemma hf_models_printable: "\<forall>s \<in> set (map (\<lambda>m. hf_spec k m 800) alternative_hf_models). printable (model s)"
  by (simp add: alternative_hf_models_def hf_spec_def printable_u)

lemma attempt_groq_resolve:
  assumes "\<forall>s \<in> set (snd (resolve LLM (groq_part env))). \<forall>e. LLM s = Inl e \<longrightarrow> printable (str_exn e)"
  shows "attempt_groq LLM env =
     (case resolve LLM (groq_part env) of
        (Some c, t) \<Rightarrow> (Built c, t)
      | (None, t) \<Rightarrow> (Failed, t))"
proof (cases "truthy (GROQ_API_KEY env)")
  case False
  then show ?thesis by (simp add: attempt_groq_def groq_part_def)
next
  case True
  show ?thesis
  proof (cases "LLM (groq_spec (u ''llama3-8b-8192''))")
    case (Inr c)
    with True show ?thesis by (simp add: attempt_groq_def groq_part_def)
  next
    case (Inl e)
    with True assms have p: "printable (str_exn e)"
      and rest: "\<forall>s \<in> set (snd (resolve LLM (map groq_spec groq_models))). \<forall>e. LLM s = Inl e \<longrightarrow> printable (str_exn e)"
      by (auto simp: groq_part_def split: prod.splits)
    have "print ([0x274C] @ u '' Groq failed: '' @ str_exn e) = Inr ()"
      using p by (intro print_printable) (simp add: printable_append printable_Cons printable_u surrogate_def)
    with True Inl try_models_resolve [OF groq_models_printable rest, of "[groq_spec (u ''llama3-8b-8192'')]"]
    show ?thesis by (simp add: attempt_groq_def groq_part_def split: prod.splits option.splits)
  qed
qed

lemma attempt_hf_resolve:
  assumes "announcement_printable env"
    and "\<forall>s \<in> set (snd (resolve LLM (hf_part env))). \<forall>e. LLM s = Inl e \<longrightarrow> printable (str_exn e)"
  shows "attempt_hf LLM env tried =
     (case resolve LLM (hf_part env) of
        (Some c, t) \<Rightarrow> (Built c, tried @ t)
      | (None, t) \<Rightarrow> (Failed, tried @ t))"
proof (cases "truthy (HUGGINGFACE_API_KEY env)")
  case False
  then show ?thesis by (auto simp: attempt_hf_def hf_part_def truthy_def split: option.splits)
next
  case True
  then obtain k where k: "HUGGINGFACE_API_KEY env = Some k" "k \<noteq> []"
    by (auto simp: truthy_def split: option.splits)
  let ?m = "getenv_default (LITELLM_MODEL env) (u ''microsoft/DialoGPT-medium'')"
  let ?p = "getenv_default (LITELLM_PROVIDER env) (u ''huggingface'')"
  from assms(1) True have pm: "printable ?m" and pp: "printable ?p"
    by (simp_all add: announcement_printable_def)
  have announce: "print ([0x1F504] @ u '' Trying Hugging Face as fallback (via '' @ ?p @
                            u '' provider): '' @ ?m) = Inr ()"
    using pm pp by (intro print_printable) (simp add: printable_append printable_Cons printable_u surrogate_def)
  show ?thesis
  proof (cases "LLM (hf_spec k ?m 1000)")
    case (Inr c)
    with k announce show ?thesis by (simp add: attempt_hf_def hf_part_def Let_def)
  next
    case (Inl e)
    with k assms(2) have p: "printable (str_exn e)"
      and rest: "\<forall>s \<in> set (snd (resolve LLM (map (\<lambda>m. hf_spec k m 800) alternative_hf_models))).
                   \<forall>e. LLM s = Inl e \<longrightarrow> printable (str_exn e)"
      by (auto simp: hf_part_def split: prod.splits)
    have "print ([0x274C] @ u '' Failed to initialize Hugging Face model '' @ ?m @ u '': '' @ str_exn e) = Inr ()"
      using p pm by (intro print_printable) (simp add: printable_append printable_Cons printable_u surrogate_def)
    with k announce Inl try_models_resolve [OF hf_models_printable rest, of "tried @ [hf_spec k ?m 1000]"]
    show ?thesis by (simp add: attempt_hf_def hf_part_def Let_def split: prod.splits option.splits)
  qed
qed

lemma attempt_openai_resolve:
  assumes "\<forall>s \<in> set (snd (resolve LLM (openai_part env))). \<forall>e. LLM s = Inl e \<longrightarrow> printable (str_exn e)"
  shows "attempt_openai LLM env tried =
     (case resolve LLM (openai_part env) of
        (Some c, t) \<Rightarrow> (Built c, tried @ t)
      | (None, t) \<Rightarrow> (Failed, tried @ t))"
proof (cases "truthy (OPENAI_API_KEY env)")
  case False
  then show ?thesis by (auto simp: attempt_openai_def openai_part_def truthy_def split: option.splits)
next
  case True
  then obtain k where k: "OPENAI_API_KEY env = Some k" "k \<noteq> []"
    by (auto simp: truthy_def split: option.splits)
  show ?thesis
  proof (cases "LLM (openai_spec k)")
    case (Inr c)
    with k show ?thesis by (simp add: attempt_openai_def openai_part_def)
  next
    case (Inl e)
    with k assms have p: "printable (str_exn e)" by (auto simp: openai_part_def)
    have "print ([0x274C] @ u '' OpenAI fallback failed: '' @ str_exn e) = Inr ()"
      using p by (intro print_printable) (simp add: printable_append printable_Cons printable_u surrogate_def)
    with k Inl show ?thesis by (simp add: attempt_openai_def openai_part_def)
  qed
qed

lemma initialize_llm_resolve:
  assumes "announcement_printable env"
    and "\<forall>s \<in> set (snd (resolve LLM (groq_part env @ hf_part env @ openai_part env))).
           \<forall>e. LLM s = Inl e \<longrightarrow> printable (str_exn e)"
  shows "initialize_llm LLM env =
     (case resolve LLM (groq_part env @ hf_part env @ openai_part env) of
        (Some c, t) \<Rightarrow> (Inr c, t)
      | (None, t) \<Rightarrow> (Inl (Exn RuntimeError no_llm_message), t))"
proof -
  obtain rg tg where g: "resolve LLM (groq_part env) = (rg, tg)" by (cases "resolve LLM (groq_part env)")
  obtain rh th where h: "resolve LLM (hf_part env) = (rh, th)" by (cases "resolve LLM (hf_part env)")
  obtain ro to where o: "resolve LLM (openai_part env) = (ro, to)" by (cases "resolve LLM (openai_part env)")
  from assms(2) g have ag: "\<forall>s \<in> set (snd (resolve LLM (groq_part env))). \<forall>e. LLM s = Inl e \<longrightarrow> printable (str_exn e)"
    by (auto simp: resolve_append split: option.splits prod.splits)
  note G = attempt_groq_resolve [OF ag]
  show ?thesis
  proof (cases rg)
    case (Some c)
    with g G show ?thesis by (simp add: initialize_llm_def resolve_append)
  next
    case None
    with assms(2) g h have ah: "\<forall>s \<in> set (snd (resolve LLM (hf_part env))). \<forall>e. LLM s = Inl e \<longrightarrow> printable (str_exn e)"
      by (auto simp: resolve_append split: option.splits prod.splits)
    note H = attempt_hf_resolve [OF assms(1) ah, of tg]
    show ?thesis
    proof (cases rh)
      case (Some c)
      with None g h G H show ?thesis by (simp add: initialize_llm_def resolve_append)
    next
      case None': None
      with None assms(2) g h o have ao: "\<forall>s \<in> set (snd (resolve LLM (openai_part env))). \<forall>e. LLM s = Inl e \<longrightarrow> printable (str_exn e)"
        by (auto simp: resolve_append split: option.splits prod.splits)
      note O = attempt_openai_resolve [OF ao, of "tg @ th"]
      from None None' g h o G H O show ?thesis
        by (cases ro) (simp_all add: initialize_llm_def resolve_append)
    qed
  qed
qed


lemma resolve_all_fail:
  "list_all (\<lambda>s. \<exists>e. LLM s = Inl e) sps \<Longrightarrow> resolve LLM sps = (None, sps)"
  by (induction sps) auto


lemma all_fail:
  assumes "announcement_printable env"
    and "\<forall>s \<in> set (provider_specs env). \<exists>e. LLM s = Inl e \<and> printable (str_exn e)"
  shows "initialize_llm LLM env = (Inl (Exn RuntimeError no_llm_message), provider_specs env)"
proof -
  from assms(2) have f: "list_all (\<lambda>s. \<exists>e. LLM s = Inl e) (provider_specs env)" by (auto simp: list_all_iff)
  have r: "resolve LLM (groq_part env @ hf_part env @ openai_part env) = (None, provider_specs env)"
    using resolve_all_fail [OF f] by (simp add: provider_specs_def)
  have "\<forall>s \<in> set (snd (resolve LLM (groq_part env @ hf_part env @ openai_part env))).
           \<forall>e. LLM s = Inl e \<longrightarrow> printable (str_exn e)"
    using assms(2) r by auto
  from initialize_llm_resolve [OF assms(1) this] r show ?thesis by simp
qed

lemma groq_only_specs:
  "provider_specs groq_only_env =
     [groq_spec (u ''llama3-8b-8192'')] @ groq_spec (u ''mixtral-8x7b-32768'')
       # [groq_spec (u ''llama2-70b-4096''), groq_spec (u ''gemma-7b-it'')]"
  by (simp add: provider_specs_def groq_part_def hf_part_def openai_part_def groq_only_env_def
      truthy_def groq_models_def u_def)

lemma groq_only_announcement: "announcement_printable groq_only_env"
  by (simp add: announcement_printable_def groq_only_env_def truthy_def)

lemma no_credentials_announcement: "announcement_printable no_credentials_env"
  by (simp add: announcement_printable_def no_credentials_env_def truthy_def)

lemma no_credentials_specs: "provider_specs no_credentials_env = []"
  by (simp add: provider_specs_def groq_part_def hf_part_def openai_part_def no_credentials_env_def truthy_def)



lemma bad_byte_unprintable: "\<not> printable (u ''bad byte '' @ [0xDC80])"
  by (simp add: printable_append printable_Cons surrogate_def)


text \<open>
  Each \<^verbatim>\<open>except\<close> block of \<^verbatim>\<open>_initialize_llm\<close> prints the text of the
  failure it has caught; a text that cannot be printed ends the function there, with the
  exception of \<^verbatim>\<open>print\<close>.
\<close>

lemma try_models_unprintable:
  "LLM sp = Inl e \<Longrightarrow> \<not> printable (str_exn e) \<Longrightarrow>
   try_models LLM (sp # sps) tried =
     (Raised (Exn UnicodeEncodeError (u ''surrogates not allowed'')), tried @ [sp])"
  by (simp add: print_def printable_append printable_Cons)

lemma attempt_groq_unprintable:
  "truthy (GROQ_API_KEY env) \<Longrightarrow> LLM (groq_spec (u ''llama3-8b-8192'')) = Inl e
   \<Longrightarrow> \<not> printable (str_exn e) \<Longrightarrow>
   attempt_groq LLM env =
     (Raised (Exn UnicodeEncodeError (u ''surrogates not allowed'')), [groq_spec (u ''llama3-8b-8192'')])"
  by (simp add: attempt_groq_def print_def printable_append printable_Cons)

lemma attempt_hf_unprintable:
  "HUGGINGFACE_API_KEY env = Some k \<Longrightarrow> k \<noteq> [] \<Longrightarrow> announcement_printable env
   \<Longrightarrow> LLM (hf_spec k (getenv_default (LITELLM_MODEL env) (u ''microsoft/DialoGPT-medium'')) 1000) = Inl e
   \<Longrightarrow> \<not> printable (str_exn e) \<Longrightarrow>
   attempt_hf LLM env tried =
     (Raised (Exn UnicodeEncodeError (u ''surrogates not allowed'')),
      tried @ [hf_spec k (getenv_default (LITELLM_MODEL env) (u ''microsoft/DialoGPT-medium'')) 1000])"
  by (simp add: attempt_hf_def announcement_printable_def truthy_def print_def printable_append
      printable_Cons printable_u surrogate_def Let_def)

lemma attempt_openai_unprintable:
  "OPENAI_API_KEY env = Some k \<Longrightarrow> k \<noteq> [] \<Longrightarrow> LLM (openai_spec k) = Inl e
   \<Longrightarrow> \<not> printable (str_exn e) \<Longrightarrow>
   attempt_openai LLM env tried =
     (Raised (Exn UnicodeEncodeError (u ''surrogates not allowed'')), tried @ [openai_spec k])"
  by (simp add: attempt_openai_def print_def printable_append printable_Cons)



text \<open>
  C6, as stated, fails: the error raised when every spec has failed is the same
  \<^verbatim>\<open>RuntimeError\<close> with the same fixed message whatever the reasons of the
  failures were, and the message does not hold them.
\<close>

theorem initialize_llm_exhausted_counterexample:
  "fst (initialize_llm (all_refused (u ''rate limit'')) groq_only_env) = Inl (Exn RuntimeError no_llm_message)
   \<and> fst (initialize_llm (all_refused (u ''bad key'')) groq_only_env) = Inl (Exn RuntimeError no_llm_message)
   \<and> u ''rate limit'' \<noteq> u ''bad key''
   \<and> \<not> contains no_llm_message (u ''rate limit'')
   \<and> \<not> contains no_llm_message (u ''bad key'')"
proof -
  have a: "fst (initialize_llm (all_refused (u r)) groq_only_env) = Inl (Exn RuntimeError no_llm_message)" for r
  proof -
    have "\<forall>s \<in> set (provider_specs groq_only_env).
        \<exists>e. all_refused (u r) s = Inl e \<and> printable (str_exn e)"
      by (simp add: all_refused_def printable_u)
    from all_fail [OF groq_only_announcement this] show ?thesis by simp
  qed
  have b: "u ''rate limit'' \<noteq> u ''bad key''" by (simp add: u_def)
  have c: "\<not> contains no_llm_message (u ''rate limit'')" by (simp add: no_llm_message_def u_def)
  have d: "\<not> contains no_llm_message (u ''bad key'')" by (simp add: no_llm_message_def u_def)
  from a [of "''rate limit''"] a [of "''bad key''"] b c d show ?thesis by blast
qed

text \<open>
  C6, amended. When every spec of the sequence fails with a text that can be printed, and
  in particular when the sequence is empty because no credential is set,
  \<^verbatim>\<open>_initialize_llm\<close> returns no client: it raises \<^verbatim>\<open>RuntimeError\<close> with
  the fixed message \<^verbatim>\<open>No valid LLM could be initialized. ...\<close>, after attempting
  every spec once, in order.
\<close>

theorem initialize_llm_exhausted:
  "announcement_printable env
   \<and> (\<forall>s \<in> set (provider_specs env). \<exists>e. LLM s = Inl e \<and> printable (str_exn e))
   \<longrightarrow> initialize_llm LLM env = (Inl (Exn RuntimeError no_llm_message), provider_specs env)"
  using all_fail [of env LLM] by blast

theorem initialize_llm_exhausted_witness:
  "initialize_llm primary_refused no_credentials_env = (Inl (Exn RuntimeError no_llm_message), [])
   \<and> initialize_llm (all_refused (u ''rate limit'')) groq_only_env =
       (Inl (Exn RuntimeError no_llm_message),
        [groq_spec (u ''llama3-8b-8192''), groq_spec (u ''mixtral-8x7b-32768''),
         groq_spec (u ''llama2-70b-4096''), groq_spec (u ''gemma-7b-it'')])"
proof -
  have "printable (u ''rate limit'')" by (rule printable_u)
  with initialize_llm_exhausted [of no_credentials_env primary_refused]
    initialize_llm_exhausted [of groq_only_env "all_refused (u ''rate limit'')"]
    no_credentials_announcement groq_only_announcement
  show ?thesis by (simp add: no_credentials_specs groq_only_specs all_refused_def)
qed

section \<open>Properties of the prompts\<close>

lemma startswith_iff: "startswith s p \<longleftrightarrow> (\<exists>q. s = p @ q)"
  by (induction s p rule: startswith.induct) auto

lemma contains_iff: "contains s sub \<longleftrightarrow> (\<exists>p q. s = p @ sub @ q)"
proof (induction s)
  case Nil
  show ?case by auto
next
  case (Cons c cs)
  have "(\<exists>p q. c # cs = p @ sub @ q) \<longleftrightarrow> (\<exists>q. c # cs = sub @ q) \<or> (\<exists>p q. cs = p @ sub @ q)"
  proof
    assume "\<exists>p q. c # cs = p @ sub @ q"
    then obtain p q where pq: "c # cs = p @ sub @ q" by blast
    show "(\<exists>q. c # cs = sub @ q) \<or> (\<exists>p q. cs = p @ sub @ q)"
    proof (cases p)
      case Nil
      with pq show ?thesis by auto
    next
      case (Cons a p')
      with pq have "cs = p' @ sub @ q" by simp
      then show ?thesis by blast
    qed
  next
    assume "(\<exists>q. c # cs = sub @ q) \<or> (\<exists>p q. cs = p @ sub @ q)"
    then show "\<exists>p q. c # cs = p @ sub @ q"
    proof
      assume "\<exists>q. c # cs = sub @ q"
      then obtain q where "c # cs = [] @ sub @ q" by auto
      then show ?thesis by blast
    next
      assume "\<exists>p q. cs = p @ sub @ q"
      then obtain p q where "c # cs = (c # p) @ sub @ q" by auto
      then show ?thesis by blast
    qed
  qed
  with Cons show ?case by (simp add: startswith_iff)
qed

lemma contains_here: "contains (x @ t) x"
  unfolding contains_iff by (rule exI [of _ "[]"]) auto

lemma contains_self: "contains x x"
  using contains_here [of x "[]"] by simp

lemma contains_skip: "contains t x \<Longrightarrow> contains (s @ t) x"
proof -
  assume "contains t x"
  then obtain p q where "t = p @ x @ q" unfolding contains_iff by blast
  then have "s @ t = (s @ p) @ x @ q" by simp
  then show ?thesis unfolding contains_iff by blast
qed

lemma contains_cons: "contains t x \<Longrightarrow> contains (c # t) x"
  using contains_skip [of t x "[c]"] by simp


lemmas contains_found = contains_here contains_self
lemmas contains_next = contains_skip contains_cons

lemma city_recommendations_prompt_fields:
  "\<exists>p. city_recommendations_prompt
          \<lparr>travel_type = Some tt, interests = Some i, season = Some s, duration = Some d, budget = Some b\<rparr> = Inr p
     \<and> contains p (py_str tt) \<and> contains p (py_str i) \<and> contains p (py_str s)
     \<and> contains p (py_str d) \<and> contains p (py_str b)"
  apply (simp add: city_recommendations_prompt_def subscript_def del: contains.simps)
  apply (intro conjI)
      apply (rule contains_found | rule contains_next)+
  done

lemma destination_research_prompt_fields:
  "\<exists>p. destination_research_prompt city
          \<lparr>travel_type = Some tt, interests = Some i, season = Some s, duration = Some d, budget = Some b\<rparr> = Inr p
     \<and> contains p (py_str tt) \<and> contains p (py_str i) \<and> contains p (py_str d) \<and> contains p city"
  apply (simp add: destination_research_prompt_def subscript_def del: contains.simps)
  apply (intro conjI)
      apply (rule contains_found | rule contains_next)+
  done

lemma itinerary_prompt_fields:
  "\<exists>p. itinerary_prompt city
          \<lparr>travel_type = Some tt, interests = Some i, season = Some s, duration = Some d, budget = Some b\<rparr> = Inr p
     \<and> contains p (py_str tt) \<and> contains p (py_str i) \<and> contains p (py_str d) \<and> contains p city"
  apply (simp add: itinerary_prompt_def subscript_def del: contains.simps)
  apply (intro conjI)
      apply (rule contains_found | rule contains_next)+
  done

lemma budget_plan_prompt_fields:
  "\<exists>p. budget_plan_prompt city
          \<lparr>travel_type = Some tt, interests = Some i, season = Some s, duration = Some d, budget = Some b\<rparr> = Inr p
     \<and> contains p (py_str d) \<and> contains p (py_str b) \<and> contains p city"
  apply (simp add: budget_plan_prompt_def subscript_def del: contains.simps)
  apply (intro conjI)
      apply (rule contains_found | rule contains_next)+
  done

text \<open>
  C7, as stated, fails: the prompts of stages 2 to 4 do not interpolate every preference
  field. For the submission \<open>winter_food_trip\<close> and the city Rome the research prompt is
  built without error and does not contain the season, \<^verbatim>\<open>Winter\<close>.
\<close>

theorem prompt_every_field_counterexample:
  "season winter_food_trip = Some (PStr (u ''Winter''))
   \<and> \<not> isl (destination_research_prompt (u ''Rome'') winter_food_trip)
   \<and> \<not> contains (projr (destination_research_prompt (u ''Rome'') winter_food_trip)) (u ''Winter'')"
  by (simp add: destination_research_prompt_def winter_food_trip_def subscript_def u_def str_int_def)

text \<open>
  C7, amended. For every \<^verbatim>\<open>inputs\<close> with the five keys present, each prompt is
  built (no exception) and contains the values it interpolates: the city-selection prompt
  contains every preference field (travel type, interests, season, duration, budget); the
  research prompt and the itinerary prompt contain the travel type, the interests, the
  duration and the city; the budget prompt contains the duration, the budget and the city.
\<close>

theorem prompts_contain_interpolated_fields:
  "(\<exists>p. city_recommendations_prompt
          \<lparr>travel_type = Some tt, interests = Some i, season = Some s, duration = Some d, budget = Some b\<rparr> = Inr p
       \<and> contains p (py_str tt) \<and> contains p (py_str i) \<and> contains p (py_str s)
       \<and> contains p (py_str d) \<and> contains p (py_str b))
   \<and> (\<exists>p. destination_research_prompt city
          \<lparr>travel_type = Some tt, interests = Some i, season = Some s, duration = Some d, budget = Some b\<rparr> = Inr p
       \<and> contains p (py_str tt) \<and> contains p (py_str i) \<and> contains p (py_str d) \<and> contains p city)
   \<and> (\<exists>p. itinerary_prompt city
          \<lparr>travel_type = Some tt, interests = Some i, season = Some s, duration = Some d, budget = Some b\<rparr> = Inr p
       \<and> contains p (py_str tt) \<and> contains p (py_str i) \<and> contains p (py_str d) \<and> contains p city)
   \<and> (\<exists>p. budget_plan_prompt city
          \<lparr>travel_type = Some tt, interests = Some i, season = Some s, duration = Some d, budget = Some b\<rparr> = Inr p
       \<and> contains p (py_str d) \<and> contains p (py_str b) \<and> contains p city)"
  using city_recommendations_prompt_fields [of tt i s d b]
    destination_research_prompt_fields [of city tt i s d b]
    itinerary_prompt_fields [of city tt i s d b]
    budget_plan_prompt_fields [of city tt i s d b]
  by (intro conjI)

theorem prompts_contain_interpolated_fields_witness:
  "contains (projr (city_recommendations_prompt winter_food_trip)) (u ''Winter'')
   \<and> contains (projr (city_recommendations_prompt winter_food_trip)) (u ''7'')
   \<and> contains (projr (destination_research_prompt (u ''Rome'') winter_food_trip)) (u ''Food, Art'')
   \<and> contains (projr (itinerary_prompt (u ''Rome'') winter_food_trip)) (u ''Cultural'')
   \<and> contains (projr (budget_plan_prompt (u ''Rome'') winter_food_trip)) (u ''Luxury (Rs4000+)'')
   \<and> contains (projr (budget_plan_prompt (u ''Rome'') winter_food_trip)) (u ''Rome'')"
proof -
  have d: "py_str (PInt 7) = u ''7''" by (simp add: str_int_def u_def)
  from prompts_contain_interpolated_fields [of "PStr (u ''Cultural'')" "PStr (u ''Food, Art'')"
      "PStr (u ''Winter'')" "PInt 7" "PStr (u ''Luxury (Rs4000+)'')" "u ''Rome''"]
  show ?thesis
    unfolding winter_food_trip_def
    by (auto simp del: contains.simps py_str.simps(2) simp add: d)
qed

section \<open>Properties of TripCrew.run\<close>

lemma run_returns: "run_try w ua self = Inr plan \<Longrightarrow> run w ua self = Inr plan"
  by (simp add: run_def)

lemmas print_simps = print_def printable_append printable_Cons printable_u surrogate_def

lemma run_caught:
  "run_try w ua self = Inl e \<Longrightarrow> printable (str_exn e) \<Longrightarrow> run w ua self = Inr (error_plan e)"
  by (simp add: run_def print_simps)

lemma run_print_raises:
  "run_try w ua self = Inl e \<Longrightarrow> \<not> printable (str_exn e)
   \<Longrightarrow> run w ua self = Inl (Exn UnicodeEncodeError (u ''surrogates not allowed''))"
  by (simp add: run_def print_def printable_append printable_Cons)

lemma select_city_kickoff_fails:
  "\<lbrakk>city_selector_agent w (crew_llm self) = Inr selector;
    city_selection_task w selector (crew_inputs self) = Inr city_task;
    kickoff w [selector] [city_task] = Inl e\<rbrakk>
   \<Longrightarrow> select_city w ua self = Inl e"
  by (simp add: select_city_def)

lemma select_city_unprintable_raw:
  assumes "city_selector_agent w (crew_llm self) = Inr selector"
    and "city_selection_task w selector (crew_inputs self) = Inr city_task"
    and "kickoff w [selector] [city_task] = Inr city_result_object"
    and "co_raw city_result_object = Some raw" and "\<not> printable (py_str raw)"
  shows "select_city w ua self = Inl (Exn UnicodeEncodeError (u ''surrogates not allowed''))"
  using assms by (simp add: select_city_def print_def printable_append)

lemma run_try_select_fails: "select_city w ua self = Inl e \<Longrightarrow> run_try w ua self = Inl e"
  by (simp add: run_try_def)

lemma run_try_detail_kickoff_fails:
  "\<lbrakk>select_city w ua self = Inr (raw, city); detail_crew w self city = Inr (agents, tasks);
    kickoff w agents tasks = Inl e\<rbrakk>
   \<Longrightarrow> run_try w ua self = Inl e"
  by (simp add: run_try_def)

lemma run_detail_returns:
  "\<lbrakk>select_city w ua self = Inr (raw, city); detail_crew w self city = Inr (agents, tasks);
    kickoff w agents tasks = Inr detailed\<rbrakk>
   \<Longrightarrow> run w ua self =
       Inr \<lparr>city_selection = clean_surrogates raw,
            city_research = clean_surrogates (fst (collect_outputs detailed)),
            itinerary = clean_surrogates (fst (snd (collect_outputs detailed))),
            budget_plan = clean_surrogates (snd (snd (collect_outputs detailed)))\<rparr>"
  by (simp add: run_def run_try_def split: prod.split)

lemma plan_trip_resolution_fails:
  "fst (initialize_llm (new_LLM w) env) = Inl e \<Longrightarrow> plan_trip w env ua inputs = Inl e"
  by (simp add: plan_trip_def TripCrew_init_def TripAgents_init_def)

lemma error_plan_fields:
  "city_selection (error_plan e) =
     PStr (u ''Error occurred during city selection: '' @ str_exn e @
           u ''. Please check your API configuration and try again.'')"
  "city_research (error_plan e) = PStr (u ''Unable to generate due to error'')"
  "itinerary (error_plan e) = PStr (u ''Unable to generate due to error'')"
  "budget_plan (error_plan e) = PStr (u ''Unable to generate due to error'')"
  by (simp_all add: error_plan_def)

lemma last_output_Cons:
  "last_output P (t # rest) before = last_output P rest (if P t then output_text t else before)"
  by (simp add: last_output_def)

lemma dispatch_last_output:
  "dispatch outs (r0, i0, b0) =
     (last_output to_research outs r0, last_output to_itinerary outs i0, last_output to_budget outs b0)"
proof (induction outs arbitrary: r0 i0 b0)
  case Nil
  show ?case by (simp add: last_output_def)
next
  case (Cons t rest)
  show ?case
    by (simp add: Cons.IH last_output_Cons to_research_def to_itinerary_def to_budget_def)
qed

lemma collect_outputs_dispatch:
  "co_tasks_output detailed = Some outs \<Longrightarrow> outs \<noteq> [] \<Longrightarrow>
   collect_outputs detailed =
     (last_output to_research outs (PStr (u ''No research available'')),
      last_output to_itinerary outs (PStr (u ''No itinerary available'')),
      last_output to_budget outs (PStr (u ''No budget available'')))"
  by (cases outs) (simp_all add: collect_outputs_def dispatch_last_output del: dispatch.simps)

lemma collect_outputs_whole:
  "co_tasks_output detailed = None \<or> co_tasks_output detailed = Some [] \<Longrightarrow>
   collect_outputs detailed =
     (PStr (case co_result detailed of Some v \<Rightarrow> py_str v | None \<Rightarrow> co_str detailed),
      PStr (case co_result detailed of Some v \<Rightarrow> py_str v | None \<Rightarrow> co_str detailed),
      PStr (case co_result detailed of Some v \<Rightarrow> py_str v | None \<Rightarrow> co_str detailed))"
  by (auto simp: collect_outputs_def Let_def)

lemma example_selector:
  "\<exists>selector city_task.
     city_selector_agent (scripted_world k) (crew_llm example_crew) = Inr selector
     \<and> city_selection_task (scripted_world k) selector (crew_inputs example_crew) = Inr city_task"
  by (simp add: city_selector_agent_def base_agent_def city_selection_task_def scripted_world_def)

lemma example_select_city:
  assumes "\<And>a t. k [a] [t] = Inr paris_output"
  shows "select_city (scripted_world k) ascii_alnum example_crew
           = Inr (PStr (u ''1. Paris, France - ...''), u ''Paris'')"
  using assms
  by (simp add: select_city_def city_selector_agent_def base_agent_def city_selection_task_def
      scripted_world_def paris_output_def paris_france_example print_simps)

lemma example_detail_crew:
  "\<exists>a1 a2 a3 t1 t2 t3.
     detail_crew (scripted_world k) example_crew (u ''Paris'') = Inr ([a1, a2, a3], [t1, t2, t3])"
  by (simp add: detail_crew_def local_expert_agent_def travel_planner_agent_def
      budget_manager_agent_def base_agent_def city_research_task_def itinerary_creation_task_def
      budget_planning_task_def scripted_world_def Let_def print_simps)

lemma raises_one: "itinerary_raises [a] [t] = Inr paris_output"
  by (simp add: itinerary_raises_def)

lemma raises_three:
  "itinerary_raises as [t1, t2, t3] = Inl (Exn LibraryError (u ''itinerary task: rate limit reached''))"
  by (simp add: itinerary_raises_def)

lemma missing_one: "itinerary_missing [a] [t] = Inr paris_output"
  by (simp add: itinerary_missing_def)

lemma missing_three:
  "itinerary_missing as [t1, t2, t3] =
     Inr \<lparr>co_raw = None, co_result = None, co_tasks_output = Some research_and_budget, co_str = []\<rparr>"
  by (simp add: itinerary_missing_def)

lemma example_raises_run:
  "run (scripted_world itinerary_raises) ascii_alnum example_crew
     = Inr (error_plan (Exn LibraryError (u ''itinerary task: rate limit reached'')))"
proof -
  obtain a1 a2 a3 t1 t2 t3 where
    d: "detail_crew (scripted_world itinerary_raises) example_crew (u ''Paris'') = Inr ([a1, a2, a3], [t1, t2, t3])"
    using example_detail_crew by blast
  have k: "kickoff (scripted_world itinerary_raises) [a1, a2, a3] [t1, t2, t3]
      = Inl (Exn LibraryError (u ''itinerary task: rate limit reached''))"
    by (simp add: scripted_world_def raises_three)
  from run_try_detail_kickoff_fails [OF example_select_city d k] raises_one
  show ?thesis by (simp add: run_caught printable_u)
qed

lemma research_and_budget_outputs:
  "last_output to_research research_and_budget (PStr (u ''No research available'')) = PStr (u ''Louvre, Orsay'')"
  "last_output to_itinerary research_and_budget (PStr (u ''No itinerary available''))
     = PStr (u ''No itinerary available'')"
  "last_output to_budget research_and_budget (PStr (u ''No budget available'')) = PStr (u ''EUR 2100'')"
  by (simp_all add: last_output_def research_and_budget_def to_research_def to_itinerary_def
      to_budget_def output_text_def lower_def lower_char_def u_def)

lemma example_texts_clean:
  "clean_surrogates (PStr (u ''1. Paris, France - ...'')) = PStr (u ''1. Paris, France - ...'')"
  "clean_surrogates (PStr (u ''Louvre, Orsay'')) = PStr (u ''Louvre, Orsay'')"
  "clean_surrogates (PStr (u ''No itinerary available'')) = PStr (u ''No itinerary available'')"
  "clean_surrogates (PStr (u ''EUR 2100'')) = PStr (u ''EUR 2100'')"
  by (simp_all add: u_def surrogate_def)

text \<open>
  C1, as stated, fails where it speaks of provider resolution: that step is in the
  constructor, outside the \<^verbatim>\<open>try\<close> block of \<^verbatim>\<open>run\<close>. With no credential
  set, \<^verbatim>\<open>TripCrew(inputs).run()\<close> raises \<^verbatim>\<open>RuntimeError\<close> to its caller and
  returns no TripPlan.
\<close>

theorem pipeline_never_raises_counterexample:
  "provider_specs no_credentials_env = []
   \<and> plan_trip (scripted_world itinerary_missing) no_credentials_env ascii_alnum winter_food_trip
       = Inl (Exn RuntimeError no_llm_message)"
  by (simp add: plan_trip_def TripCrew_init_def TripAgents_init_def initialize_llm_def
      attempt_groq_def attempt_hf_def attempt_openai_def no_credentials_env_def truthy_def
      provider_specs_def groq_part_def hf_part_def openai_part_def)

text \<open>
  C1, amended. On every constructed \<^verbatim>\<open>TripCrew\<close>, \<^verbatim>\<open>run\<close> returns the
  plan of its \<^verbatim>\<open>try\<close> block when no exception leaves that block; an exception
  that leaves it is caught, and when its text can be printed, \<^verbatim>\<open>run\<close> returns a
  plan whose four fields are error placeholders; this is so in particular when the
  kickoff of stage 1 fails. So \<^verbatim>\<open>run\<close> raises nothing whenever the text of
  the exception it catches can be printed. (When that text holds a lone surrogate, the
  \<^verbatim>\<open>print\<close> of the \<^verbatim>\<open>except\<close> block raises
  \<^verbatim>\<open>UnicodeEncodeError\<close>, which leaves \<^verbatim>\<open>run\<close>.) Provider resolution is
  not part of \<^verbatim>\<open>run\<close>: when it fails, the constructor raises and
  \<^verbatim>\<open>TripCrew(inputs).run()\<close> raises that exception.
\<close>

theorem run_catches_failures:
  "(run_try w ua self = Inr plan \<longrightarrow> run w ua self = Inr plan)
   \<and> (run_try w ua self = Inl e \<and> printable (str_exn e) \<longrightarrow> run w ua self = Inr (error_plan e))
   \<and> ((\<forall>x. run_try w ua self = Inl x \<longrightarrow> printable (str_exn x)) \<longrightarrow> (\<exists>p. run w ua self = Inr p))
   \<and> (city_selector_agent w (crew_llm self) = Inr selector
        \<and> city_selection_task w selector (crew_inputs self) = Inr city_task
        \<and> kickoff w [selector] [city_task] = Inl e \<and> printable (str_exn e)
        \<longrightarrow> run w ua self = Inr (error_plan e))
   \<and> city_selection (error_plan e) =
        PStr (u ''Error occurred during city selection: '' @ str_exn e @
              u ''. Please check your API configuration and try again.'')
   \<and> city_research (error_plan e) = PStr (u ''Unable to generate due to error'')
   \<and> itinerary (error_plan e) = PStr (u ''Unable to generate due to error'')
   \<and> budget_plan (error_plan e) = PStr (u ''Unable to generate due to error'')
   \<and> (run_try w ua self = Inl e \<and> \<not> printable (str_exn e)
        \<longrightarrow> run w ua self = Inl (Exn UnicodeEncodeError (u ''surrogates not allowed'')))
   \<and> (fst (initialize_llm (new_LLM w) env) = Inl e \<longrightarrow> plan_trip w env ua inputs = Inl e)"
proof -
  have total: "(\<forall>x. run_try w ua self = Inl x \<longrightarrow> printable (str_exn x)) \<longrightarrow> (\<exists>p. run w ua self = Inr p)"
  proof
    assume a: "\<forall>x. run_try w ua self = Inl x \<longrightarrow> printable (str_exn x)"
    show "\<exists>p. run w ua self = Inr p"
    proof (cases "run_try w ua self")
      case (Inl x)
      with a have "printable (str_exn x)" by simp
      with Inl have "run w ua self = Inr (error_plan x)" by (rule run_caught)
      then show ?thesis by blast
    next
      case (Inr p)
      then have "run w ua self = Inr p" by (rule run_returns)
      then show ?thesis by blast
    qed
  qed
  have stage1: "run w ua self = Inr (error_plan e)"
    if "city_selector_agent w (crew_llm self) = Inr selector"
      "city_selection_task w selector (crew_inputs self) = Inr city_task"
      "kickoff w [selector] [city_task] = Inl e" "printable (str_exn e)"
    using select_city_kickoff_fails [OF that(1-3)] that(4)
    by (simp add: run_try_select_fails run_caught)
  from run_returns [of w ua self plan] run_caught [of w ua self e] total stage1
    error_plan_fields [of e] run_print_raises [of w ua self e]
    plan_trip_resolution_fails [of w env e ua inputs]
  show ?thesis by blast
qed

theorem run_catches_failures_witness:
  "run (scripted_world kickoff_raises) ascii_alnum example_crew
     = Inr (error_plan (Exn LibraryError (u ''connection refused'')))
   \<and> city_selection (error_plan (Exn LibraryError (u ''connection refused''))) =
        PStr (u ''Error occurred during city selection: '' @ u ''connection refused'' @
              u ''. Please check your API configuration and try again.'')"
proof -
  obtain selector city_task where
    s: "city_selector_agent (scripted_world kickoff_raises) (crew_llm example_crew) = Inr selector"
       "city_selection_task (scripted_world kickoff_raises) selector (crew_inputs example_crew) = Inr city_task"
    using example_selector by blast
  have k: "kickoff (scripted_world kickoff_raises) [selector] [city_task]
      = Inl (Exn LibraryError (u ''connection refused''))"
    by (simp add: scripted_world_def kickoff_raises_def)
  have p: "printable (str_exn (Exn LibraryError (u ''connection refused'')))"
    by (simp add: printable_u)
  from run_catches_failures [of "scripted_world kickoff_raises" ascii_alnum example_crew _
      "Exn LibraryError (u ''connection refused'')" selector city_task] s k p
  show ?thesis by simp
qed

text \<open>
  C2, as stated, fails. Stage 1 succeeds with \<^verbatim>\<open>1. Paris, France - ...\<close> and the
  city Paris; the kickoff of the detail crew raises because its itinerary task fails; the
  plan returned has the error placeholders in all four fields, so neither the city
  selection nor the research nor the budget is kept.
\<close>

theorem stage_isolation_counterexample:
  "select_city (scripted_world itinerary_raises) ascii_alnum example_crew
     = Inr (PStr (u ''1. Paris, France - ...''), u ''Paris'')
   \<and> run (scripted_world itinerary_raises) ascii_alnum example_crew
       = Inr (error_plan (Exn LibraryError (u ''itinerary task: rate limit reached'')))
   \<and> city_selection (error_plan (Exn LibraryError (u ''itinerary task: rate limit reached'')))
       \<noteq> PStr (u ''1. Paris, France - ...'')
   \<and> city_research (error_plan (Exn LibraryError (u ''itinerary task: rate limit reached'')))
       = PStr (u ''Unable to generate due to error'')
   \<and> budget_plan (error_plan (Exn LibraryError (u ''itinerary task: rate limit reached'')))
       = PStr (u ''Unable to generate due to error'')"
proof -
  have a: "select_city (scripted_world itinerary_raises) ascii_alnum example_crew
     = Inr (PStr (u ''1. Paris, France - ...''), u ''Paris'')"
    using raises_one by (rule example_select_city)
  have b: "city_selection (error_plan (Exn LibraryError (u ''itinerary task: rate limit reached'')))
       \<noteq> PStr (u ''1. Paris, France - ...'')"
    by (simp add: error_plan_def u_def)
  from a b example_raises_run error_plan_fields(2,4) show ?thesis by blast
qed

text \<open>
  C2, amended. Stage 1 includes the print of its raw text: a raw text that cannot be
  printed makes stage 1 fail. In every run in which stage 1 succeeds, the three later
  stages are run by one kickoff inside the same \<^verbatim>\<open>try\<close> block. If that kickoff
  raises (with a text that can be printed), the exception is caught at the pipeline
  boundary and all four fields, the city selection included, are the error placeholders.
  If it returns a non-empty \<^verbatim>\<open>tasks_output\<close>, the city selection is the cleaned
  text of stage 1 and each later field is handled on its own: it holds the cleaned text of
  the last task output dispatched to its stage, or its own placeholder
  (\<^verbatim>\<open>No research available\<close>, \<^verbatim>\<open>No itinerary available\<close>,
  \<^verbatim>\<open>No budget available\<close>) when no task output is dispatched to it. If it
  returns without a non-empty \<^verbatim>\<open>tasks_output\<close>, the three later fields all hold
  the cleaned text of the whole result.
\<close>

theorem later_stages_share_one_kickoff:
  "(city_selector_agent w (crew_llm self) = Inr selector
      \<and> city_selection_task w selector (crew_inputs self) = Inr city_task
      \<and> kickoff w [selector] [city_task] = Inr city_result_object
      \<and> co_raw city_result_object = Some unprintable \<and> \<not> printable (py_str unprintable)
     \<longrightarrow> select_city w ua self = Inl (Exn UnicodeEncodeError (u ''surrogates not allowed'')))
   \<and> (select_city w ua self = Inr (raw, city) \<and> detail_crew w self city = Inr (agents, tasks) \<longrightarrow>
       (kickoff w agents tasks = Inl e \<and> printable (str_exn e) \<longrightarrow> run w ua self = Inr (error_plan e))
       \<and> (kickoff w agents tasks = Inr detailed \<and> co_tasks_output detailed = Some outs \<and> outs \<noteq> [] \<longrightarrow>
            run w ua self =
              Inr \<lparr>city_selection = clean_surrogates raw,
                   city_research = clean_surrogates
                     (last_output to_research outs (PStr (u ''No research available''))),
                   itinerary = clean_surrogates
                     (last_output to_itinerary outs (PStr (u ''No itinerary available''))),
                   budget_plan = clean_surrogates
                     (last_output to_budget outs (PStr (u ''No budget available'')))\<rparr>)
       \<and> (kickoff w agents tasks = Inr detailed
            \<and> (co_tasks_output detailed = None \<or> co_tasks_output detailed = Some []) \<longrightarrow>
            run w ua self =
              Inr \<lparr>city_selection = clean_surrogates raw,
                   city_research = clean_surrogates
                     (PStr (case co_result detailed of Some v \<Rightarrow> py_str v | None \<Rightarrow> co_str detailed)),
                   itinerary = clean_surrogates
                     (PStr (case co_result detailed of Some v \<Rightarrow> py_str v | None \<Rightarrow> co_str detailed)),
                   budget_plan = clean_surrogates
                     (PStr (case co_result detailed of Some v \<Rightarrow> py_str v | None \<Rightarrow> co_str detailed))\<rparr>))"
proof -
  have first: "select_city w ua self = Inl (Exn UnicodeEncodeError (u ''surrogates not allowed''))"
    if "city_selector_agent w (crew_llm self) = Inr selector"
      "city_selection_task w selector (crew_inputs self) = Inr city_task"
      "kickoff w [selector] [city_task] = Inr city_result_object"
      "co_raw city_result_object = Some unprintable" "\<not> printable (py_str unprintable)"
    using that by (rule select_city_unprintable_raw)
  have raises: "run w ua self = Inr (error_plan e)"
    if "select_city w ua self = Inr (raw, city)" "detail_crew w self city = Inr (agents, tasks)"
      "kickoff w agents tasks = Inl e" "printable (str_exn e)"
    using run_try_detail_kickoff_fails [OF that(1-3)] that(4) by (rule run_caught)
  have dispatched: "run w ua self =
              Inr \<lparr>city_selection = clean_surrogates raw,
                   city_research = clean_surrogates
                     (last_output to_research outs (PStr (u ''No research available''))),
                   itinerary = clean_surrogates
                     (last_output to_itinerary outs (PStr (u ''No itinerary available''))),
                   budget_plan = clean_surrogates
                     (last_output to_budget outs (PStr (u ''No budget available'')))\<rparr>"
    if "select_city w ua self = Inr (raw, city)" "detail_crew w self city = Inr (agents, tasks)"
      "kickoff w agents tasks = Inr detailed" "co_tasks_output detailed = Some outs" "outs \<noteq> []"
    using run_detail_returns [OF that(1-3)] collect_outputs_dispatch [OF that(4,5)]
    by (simp del: clean_surrogates.simps)
  have whole: "run w ua self =
              Inr \<lparr>city_selection = clean_surrogates raw,
                   city_research = clean_surrogates
                     (PStr (case co_result detailed of Some v \<Rightarrow> py_str v | None \<Rightarrow> co_str detailed)),
                   itinerary = clean_surrogates
                     (PStr (case co_result detailed of Some v \<Rightarrow> py_str v | None \<Rightarrow> co_str detailed)),
                   budget_plan = clean_surrogates
                     (PStr (case co_result detailed of Some v \<Rightarrow> py_str v | None \<Rightarrow> co_str detailed))\<rparr>"
    if "select_city w ua self = Inr (raw, city)" "detail_crew w self city = Inr (agents, tasks)"
      "kickoff w agents tasks = Inr detailed"
      "co_tasks_output detailed = None \<or> co_tasks_output detailed = Some []"
    using run_detail_returns [OF that(1-3)] collect_outputs_whole [OF that(4)]
    by (simp del: clean_surrogates.simps)
  from first raises dispatched whole show ?thesis by blast
qed

theorem later_stages_share_one_kickoff_witness:
  "run (scripted_world itinerary_raises) ascii_alnum example_crew
     = Inr (error_plan (Exn LibraryError (u ''itinerary task: rate limit reached'')))
   \<and> run (scripted_world itinerary_missing) ascii_alnum example_crew
       = Inr \<lparr>city_selection = PStr (u ''1. Paris, France - ...''),
              city_research = PStr (u ''Louvre, Orsay''),
              itinerary = PStr (u ''No itinerary available''),
              budget_plan = PStr (u ''EUR 2100'')\<rparr>"
proof -
  obtain a1 a2 a3 t1 t2 t3 where
    d: "detail_crew (scripted_world itinerary_raises) example_crew (u ''Paris'') = Inr ([a1, a2, a3], [t1, t2, t3])"
    using example_detail_crew by blast
  have k: "kickoff (scripted_world itinerary_raises) [a1, a2, a3] [t1, t2, t3]
      = Inl (Exn LibraryError (u ''itinerary task: rate limit reached''))"
    by (simp add: scripted_world_def raises_three)
  have s: "select_city (scripted_world itinerary_raises) ascii_alnum example_crew
     = Inr (PStr (u ''1. Paris, France - ...''), u ''Paris'')"
    using raises_one by (rule example_select_city)
  have p: "printable (str_exn (Exn LibraryError (u ''itinerary task: rate limit reached'')))"
    by (simp add: printable_u)
  from later_stages_share_one_kickoff [of "scripted_world itinerary_raises" example_crew _ _ _ _
      ascii_alnum "PStr (u ''1. Paris, France - ...'')" "u ''Paris''" "[a1, a2, a3]" "[t1, t2, t3]"
      "Exn LibraryError (u ''itinerary task: rate limit reached'')"] s d k p
  have first: "run (scripted_world itinerary_raises) ascii_alnum example_crew
     = Inr (error_plan (Exn LibraryError (u ''itinerary task: rate limit reached'')))"
    by blast
  obtain b1 b2 b3 u1 u2 u3 where
    d': "detail_crew (scripted_world itinerary_missing) example_crew (u ''Paris'') = Inr ([b1, b2, b3], [u1, u2, u3])"
    using example_detail_crew by blast
  have k': "kickoff (scripted_world itinerary_missing) [b1, b2, b3] [u1, u2, u3]
      = Inr \<lparr>co_raw = None, co_result = None, co_tasks_output = Some research_and_budget, co_str = []\<rparr>"
    by (simp add: scripted_world_def missing_three)
  have s': "select_city (scripted_world itinerary_missing) ascii_alnum example_crew
     = Inr (PStr (u ''1. Paris, France - ...''), u ''Paris'')"
    using missing_one by (rule example_select_city)
  have ne: "research_and_budget \<noteq> []" by (simp add: research_and_budget_def)
  have o: "co_tasks_output \<lparr>co_raw = None, co_result = None, co_tasks_output = Some research_and_budget,
      co_str = []\<rparr> = Some research_and_budget" by simp
  from later_stages_share_one_kickoff [of "scripted_world itinerary_missing" example_crew _ _ _ _
      ascii_alnum "PStr (u ''1. Paris, France - ...'')" "u ''Paris''" "[b1, b2, b3]" "[u1, u2, u3]" _
      "\<lparr>co_raw = None, co_result = None, co_tasks_output = Some research_and_budget, co_str = []\<rparr>"
      research_and_budget] s' d' k' ne o
  have "run (scripted_world itinerary_missing) ascii_alnum example_crew =
      Inr \<lparr>city_selection = clean_surrogates (PStr (u ''1. Paris, France - ...'')),
           city_research = clean_surrogates
             (last_output to_research research_and_budget (PStr (u ''No research available''))),
           itinerary = clean_surrogates
             (last_output to_itinerary research_and_budget (PStr (u ''No itinerary available''))),
           budget_plan = clean_surrogates
             (last_output to_budget research_and_budget (PStr (u ''No budget available'')))\<rparr>"
    by blast
  with first show ?thesis
    by (simp only: research_and_budget_outputs example_texts_clean)
qed

text \<open>
  Two runs on texts that hold the lone surrogate U+DC80. When it is in the raw text of
  stage 1, the print of that text fails inside the \<^verbatim>\<open>try\<close> block and the
  plan of placeholders is returned. When it is in the text of the exception that the
  kickoff of stage 1 raises, the print of the \<^verbatim>\<open>except\<close> block fails.
\<close>

lemma surrogate_raw_text_example:
  "run (scripted_world surrogate_output) ascii_alnum example_crew
     = Inr (error_plan (Exn UnicodeEncodeError (u ''surrogates not allowed'')))"
proof -
  obtain selector city_task where
    s: "city_selector_agent (scripted_world surrogate_output) (crew_llm example_crew) = Inr selector"
       "city_selection_task (scripted_world surrogate_output) selector (crew_inputs example_crew) = Inr city_task"
    using example_selector by blast
  have k: "kickoff (scripted_world surrogate_output) [selector] [city_task] =
      Inr \<lparr>co_raw = Some (PStr (u ''1. Paris'' @ [0xDC80] @ u '', France - ...'')), co_result = None,
          co_tasks_output = None, co_str = []\<rparr>"
    by (simp add: scripted_world_def surrogate_output_def)
  have "\<not> printable (py_str (PStr (u ''1. Paris'' @ [0xDC80] @ u '', France - ...'')))"
    by (simp add: printable_append printable_Cons surrogate_def)
  from select_city_unprintable_raw [OF s k _ this]
  have "select_city (scripted_world surrogate_output) ascii_alnum example_crew
      = Inl (Exn UnicodeEncodeError (u ''surrogates not allowed''))" by simp
  then have "run_try (scripted_world surrogate_output) ascii_alnum example_crew
      = Inl (Exn UnicodeEncodeError (u ''surrogates not allowed''))" by (rule run_try_select_fails)
  then show ?thesis by (rule run_caught) (simp add: printable_u)
qed

lemma unprintable_kickoff_error_example:
  "run (scripted_world kickoff_raises_unprintably) ascii_alnum example_crew
     = Inl (Exn UnicodeEncodeError (u ''surrogates not allowed''))"
proof -
  obtain selector city_task where
    s: "city_selector_agent (scripted_world kickoff_raises_unprintably) (crew_llm example_crew) = Inr selector"
       "city_selection_task (scripted_world kickoff_raises_unprintably) selector (crew_inputs example_crew) = Inr city_task"
    using example_selector by blast
  have k: "kickoff (scripted_world kickoff_raises_unprintably) [selector] [city_task]
      = Inl (Exn LibraryError (u ''bad byte '' @ [0xDC80]))"
    by (simp add: scripted_world_def kickoff_raises_unprintably_def)
  from select_city_kickoff_fails [OF s k]
  have "run_try (scripted_world kickoff_raises_unprintably) ascii_alnum example_crew
      = Inl (Exn LibraryError (u ''bad byte '' @ [0xDC80]))" by (rule run_try_select_fails)
  then show ?thesis
    by (rule run_print_raises) (simp add: printable_append printable_Cons surrogate_def)
qed

end
